theory Spec2Isabelle
  imports Main "HOL-Library.AList"
begin

section \<open>JavaScript values used by the extension\<close>

text \<open>
  A JavaScript \<^verbatim>\<open>Map\<close> keeps its entries in insertion order and holds each key once.
  It is embedded as an association list: \<^verbatim>\<open>set\<close> overwrites the value of a key in place
  or appends a new entry, \<^verbatim>\<open>delete\<close> removes the entry, \<^verbatim>\<open>get\<close> answers
  \<^verbatim>\<open>undefined\<close> (here \<open>None\<close>) for a key that is not there.
\<close>

type_synonym ('k, 'v) jsmap = "('k \<times> 'v) list"

definition has_m :: "('k, 'v) jsmap \<Rightarrow> 'k \<Rightarrow> bool" where
  "has_m m k = (k \<in> set (map fst m))"

definition get_m :: "('k, 'v) jsmap \<Rightarrow> 'k \<Rightarrow> 'v option" where
  "get_m m k = map_of m k"

definition set_m :: "'k \<Rightarrow> 'v \<Rightarrow> ('k, 'v) jsmap \<Rightarrow> ('k, 'v) jsmap" where
  "set_m k v m = AList.update k v m"

definition delete_m :: "'k \<Rightarrow> ('k, 'v) jsmap \<Rightarrow> ('k, 'v) jsmap" where
  "delete_m k m = AList.delete k m"

definition keys_m :: "('k, 'v) jsmap \<Rightarrow> 'k list" where
  "keys_m m = map fst m"

definition values_m :: "('k, 'v) jsmap \<Rightarrow> 'v list" where
  "values_m m = map snd m"

text \<open>What a \<^verbatim>\<open>throw\<close> carries: the kind of the exception and its message.\<close>

datatype error = TypeError string | Error string | DOMException string

fun message :: "error \<Rightarrow> string" where
  "message (TypeError m) = m"
| "message (Error m) = m"
| "message (DOMException m) = m"

text \<open>The result of an asynchronous call of the engine: the promise resolves or rejects.\<close>

datatype 'a outcome = Resolved 'a | Rejected error

datatype console_level = Log | Warn | Err

section \<open>The native objects\<close>

datatype RTCIceTransportPolicy = Policy_all | Policy_relay

record RTCIceServer =
  urls :: string
  username :: "string option"
  credential :: "string option"

record Configuration =
  iceServers :: "RTCIceServer list"
  iceTransportPolicy :: RTCIceTransportPolicy
  supportsTrickleIce :: bool

datatype RTCPeerConnectionState =
  PC_new | PC_connecting | PC_connected | PC_disconnected | PC_failed | PC_closed

datatype RTCIceGatheringState = ICE_new | ICE_gathering | ICE_complete

datatype RTCDataChannelState = CH_connecting | CH_open | CH_closing | CH_closed

datatype RTCSdpType = Offer | Answer | Pranswer | Rollback

record RTCSessionDescriptionInit =
  sd_type :: RTCSdpType
  sd_sdp :: string

record RTCIceCandidate =
  candidate :: string
  sdpMid :: "string option"
  sdpMLineIndex :: "nat option"
  usernameFragment :: "string option"

record MediaStream =
  stream_id :: nat
  stream_tracks :: "nat list"

text \<open>
  The handlers that \<^verbatim>\<open>getDataConnection\<close> and \<^verbatim>\<open>getVoiceConnection\<close> attach to a
  connection are closures over the peer id; \<^verbatim>\<open>handleDataChannel\<close> attaches closures
  over the peer id and the label. A closure is kept as the values it captured.
\<close>

datatype pc_closure = NoHandler | DataClosure string | VoiceClosure string

datatype ch_closure = NoChanHandler | ChanClosure string string

text \<open>
  A \<^verbatim>\<open>PeerConnection\<close> (the class of the source, \<^verbatim>\<open>RTCPeerConnection\<close> with a
  \<^verbatim>\<open>name\<close>) and an \<^verbatim>\<open>RTCDataChannel\<close> are objects of the engine that the registry
  holds by reference. They live in a store; a reference is the index of the object there.
\<close>

record PeerConnection =
  pc_name :: "string option"
  pc_configuration :: Configuration
  connectionState :: RTCPeerConnectionState
  iceGatheringState :: RTCIceGatheringState
  pc_isClosed :: bool
  localDescription :: "RTCSessionDescriptionInit option"
  remoteDescription :: "RTCSessionDescriptionInit option"
  addedIceCandidates :: "RTCIceCandidate list"
  senders :: "nat list"
  onicecandidate :: pc_closure
  onconnectionstatechange :: pc_closure
  ondatachannel :: pc_closure
  ontrack :: pc_closure

record RTCDataChannel =
  ch_connection :: nat
  ch_label :: string
  ch_negotiated :: bool
  ch_id :: "nat option"
  ch_ordered :: bool
  ch_protocol :: string
  readyState :: RTCDataChannelState
  bufferedAmountLowThreshold :: nat
  sent :: "string list"
  onmessage :: ch_closure
  onopen :: ch_closure
  onclose :: ch_closure
  onbufferedamountlow :: bool

record RTCDataChannelInit =
  init_negotiated :: bool
  init_id :: "nat option"
  init_ordered :: bool
  init_protocol :: string

text \<open>An element of the document: its tag and its \<^verbatim>\<open>id\<close> attribute, if it has one.\<close>

record element =
  tagName :: string
  element_id :: "string option"

section \<open>The registry: class OmegaRTC\<close>

text \<open>An argument passed to the callbacks of an event.\<close>

datatype evarg =
  ArgCandidate "RTCIceCandidate option" | ArgData string | ArgLabel string

record OmegaRTC =
  dataConnections :: "(string, nat) jsmap"
  dataChannels :: "(string, (string, nat) jsmap) jsmap"
  dataStorage :: "(string, (string, string) jsmap) jsmap"
  dataIceCandidates :: "(string, RTCIceCandidate list) jsmap"
  dataIceDone :: "(string, bool) jsmap"
  voiceConnections :: "(string, nat) jsmap"
  voiceStreams :: "(string, MediaStream list) jsmap"
  voiceIceCandidates :: "(string, RTCIceCandidate list) jsmap"
  voiceIceDone :: "(string, bool) jsmap"
  configuration :: Configuration
  eventHandlers :: "(string, nat list) jsmap"

text \<open>
  The state of the page: the one registry (\<^verbatim>\<open>const webrtc = new OmegaRTC()\<close>), the
  store of native connections and channels, the tracks that were stopped, the children of
  \<^verbatim>\<open>document.body\<close>, the console, and the callbacks invoked by \<^verbatim>\<open>fire\<close> with their
  arguments. A callback registered with \<^verbatim>\<open>on\<close> is opaque code of the caller: it is kept
  as a number naming it, and calling it is recorded, nothing more.
\<close>

record browser =
  webrtc :: OmegaRTC
  pcs :: "PeerConnection list"
  chans :: "RTCDataChannel list"
  stoppedTracks :: "nat list"
  body :: "element list"
  console :: "(console_level \<times> string) list"
  invoked :: "(nat \<times> evarg list) list"

text \<open>A call returns a value or throws, and leaves a state either way.\<close>

type_synonym 'a result = "(error + 'a) \<times> browser"

definition default_configuration :: Configuration where
  "default_configuration =
     \<lparr> iceServers =
         [ \<lparr> urls = ''stun:vpn.mikedev101.cc:3478'', username = None, credential = None \<rparr>,
           \<lparr> urls = ''turn:vpn.mikedev101.cc:3478'', username = Some ''free'',
             credential = Some ''free'' \<rparr>,
           \<lparr> urls = ''stun:stun.l.google.com:19302'', username = None, credential = None \<rparr>,
           \<lparr> urls = ''stun:freeturn.net:3478'', username = None, credential = None \<rparr>,
           \<lparr> urls = ''stun:freeturn.net:5349'', username = None, credential = None \<rparr>,
           \<lparr> urls = ''turn:freeturn.net:3478'', username = Some ''free'',
             credential = Some ''free'' \<rparr>,
           \<lparr> urls = ''turns:freeturn.net:5349'', username = Some ''free'',
             credential = Some ''free'' \<rparr> ],
       iceTransportPolicy = Policy_all,
       supportsTrickleIce = False \<rparr>"

definition new_OmegaRTC :: OmegaRTC where
  "new_OmegaRTC =
     \<lparr> dataConnections = [], dataChannels = [], dataStorage = [],
       dataIceCandidates = [], dataIceDone = [],
       voiceConnections = [], voiceStreams = [], voiceIceCandidates = [],
       voiceIceDone = [], configuration = default_configuration, eventHandlers = [] \<rparr>"

definition initial :: browser where
  "initial =
     \<lparr> webrtc = new_OmegaRTC, pcs = [], chans = [], stoppedTracks = [], body = [],
       console = [], invoked = [] \<rparr>"

subsection \<open>Queries\<close>

definition getPeers :: "browser \<Rightarrow> string list" where
  "getPeers s = keys_m (dataConnections (webrtc s))"

text \<open>
  \<^verbatim>\<open>doneGatheringIce\<close> returns what \<^verbatim>\<open>dataIceDone.get(id)\<close> returns, which is
  \<^verbatim>\<open>undefined\<close> (\<open>None\<close>) when the key is not there.
\<close>

definition doneGatheringIce :: "browser \<Rightarrow> string \<Rightarrow> bool option" where
  "doneGatheringIce s id' =
     (if \<not> has_m (dataConnections (webrtc s)) id' then Some False
      else get_m (dataIceDone (webrtc s)) id')"

text \<open>
  The \<^verbatim>\<open>mode\<close> is a number compared with \<^verbatim>\<open>0\<close> and \<^verbatim>\<open>1\<close>. A done flag that is
  \<^verbatim>\<open>undefined\<close> or \<^verbatim>\<open>false\<close> is falsy.
\<close>

definition allIceCandidates :: "browser \<Rightarrow> string \<Rightarrow> int \<Rightarrow> RTCIceCandidate list option" where
  "allIceCandidates s id' mode =
     (if mode = 0 then
        (if \<not> has_m (dataConnections (webrtc s)) id' then Some []
         else if get_m (dataIceDone (webrtc s)) id' \<noteq> Some True then Some []
         else get_m (dataIceCandidates (webrtc s)) id')
      else if mode = 1 then
        (if \<not> has_m (voiceConnections (webrtc s)) id' then Some []
         else if get_m (voiceIceDone (webrtc s)) id' \<noteq> Some True then Some []
         else get_m (voiceIceCandidates (webrtc s)) id')
      else Some [])"

definition getPeerChannels :: "browser \<Rightarrow> string \<Rightarrow> string list" where
  "getPeerChannels s id' =
     (case get_m (dataChannels (webrtc s)) id' of
        None \<Rightarrow> []
      | Some m \<Rightarrow> keys_m m)"

definition doesPeerChannelExist :: "browser \<Rightarrow> string \<Rightarrow> string \<Rightarrow> bool" where
  "doesPeerChannelExist s id' label =
     (case get_m (dataChannels (webrtc s)) id' of
        None \<Rightarrow> False
      | Some m \<Rightarrow> has_m m label)"


section \<open>What the engine does when the code calls it\<close>

definition console_log :: "string \<Rightarrow> browser \<Rightarrow> browser" where
  "console_log msg s = s\<lparr>console := console s @ [(Log, msg)]\<rparr>"

definition console_warn :: "string \<Rightarrow> browser \<Rightarrow> browser" where
  "console_warn msg s = s\<lparr>console := console s @ [(Warn, msg)]\<rparr>"

definition console_error :: "string \<Rightarrow> browser \<Rightarrow> browser" where
  "console_error msg s = s\<lparr>console := console s @ [(Err, msg)]\<rparr>"

definition update_pc :: "nat \<Rightarrow> (PeerConnection \<Rightarrow> PeerConnection) \<Rightarrow> browser \<Rightarrow> browser" where
  "update_pc conn f s = s\<lparr>pcs := (pcs s)[conn := f (pcs s ! conn)]\<rparr>"

definition update_chan :: "nat \<Rightarrow> (RTCDataChannel \<Rightarrow> RTCDataChannel) \<Rightarrow> browser \<Rightarrow> browser" where
  "update_chan chan f s = s\<lparr>chans := (chans s)[chan := f (chans s ! chan)]\<rparr>"

text \<open>
  \<^verbatim>\<open>new PeerConnection(configuration)\<close>: a new object of the store, which keeps its own
  copy of the configuration it was given. The reference returned is new.
\<close>

definition new_PeerConnection :: "Configuration \<Rightarrow> browser \<Rightarrow> nat \<times> browser" where
  "new_PeerConnection cfg s =
     (length (pcs s),
      s\<lparr>pcs := pcs s @
         [\<lparr> pc_name = None, pc_configuration = cfg, connectionState = PC_new,
            iceGatheringState = ICE_new, pc_isClosed = False,
            localDescription = None, remoteDescription = None,
            addedIceCandidates = [], senders = [],
            onicecandidate = NoHandler, onconnectionstatechange = NoHandler,
            ondatachannel = NoHandler, ontrack = NoHandler \<rparr>]\<rparr>)"

text \<open>
  \<^verbatim>\<open>conn.createDataChannel(label, init)\<close> throws on a closed connection; otherwise it
  returns a new channel in state \<^verbatim>\<open>connecting\<close>.
\<close>

definition pc_createDataChannel ::
  "nat \<Rightarrow> string \<Rightarrow> RTCDataChannelInit \<Rightarrow> browser \<Rightarrow> nat result" where
  "pc_createDataChannel conn label init s =
     (if pc_isClosed (pcs s ! conn) then (Inl (DOMException ''InvalidStateError''), s)
      else
        (Inr (length (chans s)),
         s\<lparr>chans := chans s @
            [\<lparr> ch_connection = conn, ch_label = label,
               ch_negotiated = init_negotiated init, ch_id = init_id init,
               ch_ordered = init_ordered init, ch_protocol = init_protocol init,
               readyState = CH_connecting, bufferedAmountLowThreshold = 0, sent = [],
               onmessage = NoChanHandler, onopen = NoChanHandler, onclose = NoChanHandler,
               onbufferedamountlow = False \<rparr>]\<rparr>))"

text \<open>\<^verbatim>\<open>chan.close()\<close> starts closing a channel that is not yet closing or closed.\<close>

definition chan_close :: "nat \<Rightarrow> browser \<Rightarrow> browser" where
  "chan_close chan s =
     (if readyState (chans s ! chan) = CH_closing \<or> readyState (chans s ! chan) = CH_closed
      then s
      else update_chan chan (\<lambda>c. c\<lparr>readyState := CH_closing\<rparr>) s)"

text \<open>
  \<^verbatim>\<open>conn.close()\<close> closes the connection and, abruptly, every channel of it; on a
  closed connection it does nothing.
\<close>

definition pc_close :: "nat \<Rightarrow> browser \<Rightarrow> browser" where
  "pc_close conn s =
     (if pc_isClosed (pcs s ! conn) then s
      else
        (update_pc conn (\<lambda>p. p\<lparr>pc_isClosed := True, connectionState := PC_closed\<rparr>) s)
          \<lparr>chans := map (\<lambda>c. if ch_connection c = conn then c\<lparr>readyState := CH_closed\<rparr> else c)
                       (chans s)\<rparr>)"

text \<open>\<^verbatim>\<open>chan.send(data)\<close> throws unless the channel is open.\<close>

definition chan_send :: "nat \<Rightarrow> string \<Rightarrow> browser \<Rightarrow> unit result" where
  "chan_send chan data s =
     (if readyState (chans s ! chan) \<noteq> CH_open then (Inl (DOMException ''InvalidStateError''), s)
      else (Inr (), update_chan chan (\<lambda>c. c\<lparr>sent := sent c @ [data]\<rparr>) s))"

section \<open>Events\<close>

definition on :: "string \<Rightarrow> nat \<Rightarrow> browser \<Rightarrow> browser" where
  "on eventName callback s =
     (let hs = eventHandlers (webrtc s);
          hs1 = (if \<not> has_m hs eventName then set_m eventName [] hs else hs)
      in s\<lparr>webrtc := (webrtc s)\<lparr>eventHandlers :=
            (case get_m hs1 eventName of
               None \<Rightarrow> hs1
             | Some cbs \<Rightarrow> set_m eventName (cbs @ [callback]) hs1)\<rparr>\<rparr>)"

definition fire :: "string \<Rightarrow> evarg list \<Rightarrow> browser \<Rightarrow> browser" where
  "fire eventName args s =
     (case get_m (eventHandlers (webrtc s)) eventName of
        None \<Rightarrow> s
      | Some cbs \<Rightarrow> s\<lparr>invoked := invoked s @ map (\<lambda>callback. (callback, args)) cbs\<rparr>)"

section \<open>Data connections\<close>

definition closeDataConnection :: "string \<Rightarrow> browser \<Rightarrow> browser" where
  "closeDataConnection id' s =
     (let conn = get_m (dataConnections (webrtc s)) id';
          s1 = (case get_m (dataChannels (webrtc s)) id' of
                  None \<Rightarrow> s
                | Some m \<Rightarrow> fold chan_close (values_m m) s);
          s2 = (case conn of None \<Rightarrow> s1 | Some c \<Rightarrow> pc_close c s1)
      in s2\<lparr>webrtc := (webrtc s2)
            \<lparr> dataConnections := delete_m id' (dataConnections (webrtc s2)),
              dataChannels := delete_m id' (dataChannels (webrtc s2)),
              dataStorage := delete_m id' (dataStorage (webrtc s2)),
              dataIceCandidates := delete_m id' (dataIceCandidates (webrtc s2)),
              dataIceDone := delete_m id' (dataIceDone (webrtc s2)) \<rparr>\<rparr>)"

text \<open>The three handlers that \<^verbatim>\<open>handleDataChannel\<close> binds to a channel.\<close>

definition chan_onmessage :: "string \<Rightarrow> string \<Rightarrow> string \<Rightarrow> browser \<Rightarrow> unit result" where
  "chan_onmessage id' label data s =
     (case get_m (dataStorage (webrtc s)) id' of
        None \<Rightarrow> (Inl (TypeError ''Cannot read properties of undefined (reading 'set')''), s)
      | Some st \<Rightarrow>
          (Inr (),
           fire (id' @ ''_message'') [ArgData data]
             (s\<lparr>webrtc := (webrtc s)\<lparr>dataStorage :=
                  set_m id' (set_m label data st) (dataStorage (webrtc s))\<rparr>\<rparr>)))"

definition chan_onopen :: "string \<Rightarrow> string \<Rightarrow> browser \<Rightarrow> browser" where
  "chan_onopen id' label s =
     console_log (''Data channel '' @ label @ '' opened for '' @ id' @ ''.'')
       (fire (id' @ ''_channel-open'') [ArgLabel label] s)"

definition chan_onclose :: "string \<Rightarrow> string \<Rightarrow> browser \<Rightarrow> browser" where
  "chan_onclose id' label s =
     (let s1 = console_log (''Data channel '' @ label @ '' closed for '' @ id' @ ''.'')
                 (fire (id' @ ''_channel-close'') [ArgLabel label] s)
      in if label = ''default''
         then fire (id' @ ''_closed'') [] (closeDataConnection id' s1)
         else s1)"

definition handleDataChannel :: "nat \<Rightarrow> string \<Rightarrow> string \<Rightarrow> browser \<Rightarrow> unit result" where
  "handleDataChannel chan label id' s =
     (let s1 = update_chan chan
                 (\<lambda>c. c\<lparr> onmessage := ChanClosure id' label, onopen := ChanClosure id' label,
                         onclose := ChanClosure id' label \<rparr>) s
      in case get_m (dataChannels (webrtc s1)) id' of
           None \<Rightarrow> (Inl (TypeError ''Cannot read properties of undefined (reading 'set')''), s1)
         | Some m \<Rightarrow>
             (Inr (),
              s1\<lparr>webrtc := (webrtc s1)\<lparr>dataChannels :=
                   set_m id' (set_m label chan m) (dataChannels (webrtc s1))\<rparr>\<rparr>))"

text \<open>The handlers that \<^verbatim>\<open>getDataConnection\<close> attaches to the connection \<open>conn\<close>.\<close>

definition data_onicecandidate ::
  "string \<Rightarrow> nat \<Rightarrow> RTCIceCandidate option \<Rightarrow> browser \<Rightarrow> unit result" where
  "data_onicecandidate id' conn cand s =
     (let pushed =
            (case cand of
               None \<Rightarrow> Inr s
             | Some c \<Rightarrow>
                 (case get_m (dataIceCandidates (webrtc s)) id' of
                    None \<Rightarrow> Inl (TypeError ''Cannot read properties of undefined (reading 'push')'')
                  | Some cs \<Rightarrow>
                      Inr (s\<lparr>webrtc := (webrtc s)\<lparr>dataIceCandidates :=
                             set_m id' (cs @ [c]) (dataIceCandidates (webrtc s))\<rparr>\<rparr>)))
      in case pushed of
           Inl e \<Rightarrow> (Inl e, s)
         | Inr s1 \<Rightarrow>
             (case iceGatheringState (pcs s1 ! conn) of
                ICE_gathering \<Rightarrow>
                  (Inr (),
                   if supportsTrickleIce (configuration (webrtc s1))
                   then fire (id' @ ''_ice'') [ArgCandidate cand] s1 else s1)
              | ICE_complete \<Rightarrow>
                  (let s2 = fire (id' @ ''_ice-done'') [ArgCandidate cand]
                              (console_log (''Finished gathering data ICE candidates for peer ''
                                            @ id' @ ''.'') s1)
                   in (Inr (),
                       s2\<lparr>webrtc := (webrtc s2)\<lparr>dataIceDone :=
                            set_m id' True (dataIceDone (webrtc s2))\<rparr>\<rparr>))
              | ICE_new \<Rightarrow> (Inr (), s1)))"

definition data_onconnectionstatechange :: "string \<Rightarrow> nat \<Rightarrow> browser \<Rightarrow> browser" where
  "data_onconnectionstatechange id' conn s =
     (case connectionState (pcs s ! conn) of
        PC_new \<Rightarrow> console_log (''Data peer '' @ id' @ '' created.'') s
      | PC_connecting \<Rightarrow> console_log (''Data peer '' @ id' @ '' connecting...'') s
      | PC_connected \<Rightarrow>
          fire (id' @ ''_connected'') [] (console_log (''Data peer '' @ id' @ '' connected.'') s)
      | PC_closed \<Rightarrow>
          fire (id' @ ''_closed'') []
            (closeDataConnection id' (console_log (''Data peer '' @ id' @ '' disconnected.'') s))
      | PC_failed \<Rightarrow>
          fire (id' @ ''_closed'') []
            (closeDataConnection id' (console_log (''Data peer '' @ id' @ '' failed.'') s))
      | PC_disconnected \<Rightarrow> s)"

definition data_ondatachannel :: "string \<Rightarrow> nat \<Rightarrow> browser \<Rightarrow> unit result" where
  "data_ondatachannel id' chan s = handleDataChannel chan (ch_label (chans s ! chan)) id' s"

definition getDataConnection :: "string \<Rightarrow> browser \<Rightarrow> nat result" where
  "getDataConnection id' s =
     (case get_m (dataConnections (webrtc s)) id' of
        Some conn \<Rightarrow> (Inr conn, s)
      | None \<Rightarrow>
          (let (conn, s1) = new_PeerConnection (configuration (webrtc s)) s;
               s2 = s1\<lparr>webrtc := (webrtc s1)
                      \<lparr> dataConnections := set_m id' conn (dataConnections (webrtc s1)),
                        dataIceCandidates := set_m id' [] (dataIceCandidates (webrtc s1)),
                        dataIceDone := set_m id' False (dataIceDone (webrtc s1)),
                        dataStorage := set_m id' [] (dataStorage (webrtc s1)),
                        dataChannels := set_m id' [] (dataChannels (webrtc s1)) \<rparr>\<rparr>
           in case pc_createDataChannel conn ''default''
                     \<lparr> init_negotiated = True, init_id = Some 0, init_ordered = True,
                       init_protocol = [] \<rparr> s2 of
                (Inl e, s3) \<Rightarrow> (Inl e, s3)
              | (Inr chan, s3) \<Rightarrow>
                  (case handleDataChannel chan ''default'' id' s3 of
                     (Inl e, s4) \<Rightarrow> (Inl e, s4)
                   | (Inr _, s4) \<Rightarrow>
                       (Inr conn,
                        update_pc conn
                          (\<lambda>p. p\<lparr> onicecandidate := DataClosure id',
                                  onconnectionstatechange := DataClosure id',
                                  ondatachannel := DataClosure id' \<rparr>) s4))))"

definition closeChannel :: "string \<Rightarrow> string \<Rightarrow> browser \<Rightarrow> unit result" where
  "closeChannel id' label s =
     (case get_m (dataChannels (webrtc s)) id' of
        None \<Rightarrow> (Inr (), s)
      | Some m \<Rightarrow>
          (case get_m m label of
             None \<Rightarrow> (Inr (), s)
           | Some chan \<Rightarrow>
               (let s1 = chan_close chan s;
                    s2 = s1\<lparr>webrtc := (webrtc s1)\<lparr>dataChannels :=
                           set_m id' (delete_m label m) (dataChannels (webrtc s1))\<rparr>\<rparr>
                in case get_m (dataStorage (webrtc s2)) id' of
                     None \<Rightarrow>
                       (Inl (TypeError ''Cannot read properties of undefined (reading 'delete')''),
                        s2)
                   | Some st \<Rightarrow>
                       (Inr (),
                        s2\<lparr>webrtc := (webrtc s2)\<lparr>dataStorage :=
                             set_m id' (delete_m label st) (dataStorage (webrtc s2))\<rparr>\<rparr>))))"

definition getChannelData :: "browser \<Rightarrow> string \<Rightarrow> string \<Rightarrow> string option" where
  "getChannelData s id' label =
     (case get_m (dataStorage (webrtc s)) id' of
        None \<Rightarrow> None
      | Some st \<Rightarrow> get_m st label)"

text \<open>
  \<^verbatim>\<open>sendData\<close> returns \<^verbatim>\<open>undefined\<close> (\<open>False\<close>) or, when it waits, a promise
  (\<open>True\<close>) that the channel's \<^verbatim>\<open>onbufferedamountlow\<close> resolves.
\<close>

definition sendData :: "string \<Rightarrow> string \<Rightarrow> string \<Rightarrow> bool \<Rightarrow> browser \<Rightarrow> bool result" where
  "sendData id' label data wait s =
     (case get_m (dataChannels (webrtc s)) id' of
        None \<Rightarrow> (Inr False, s)
      | Some m \<Rightarrow>
          (case get_m m label of
             None \<Rightarrow> (Inr False, s)
           | Some chan \<Rightarrow>
               (let s1 = (if wait
                          then update_chan chan (\<lambda>c. c\<lparr>bufferedAmountLowThreshold := 0\<rparr>) s
                          else s)
                in case chan_send chan data s1 of
                     (Inl e, s2) \<Rightarrow> (Inl e, s2)
                   | (Inr _, s2) \<Rightarrow>
                       (if wait
                        then (Inr True, update_chan chan (\<lambda>c. c\<lparr>onbufferedamountlow := True\<rparr>) s2)
                        else (Inr False, s2)))))"

text \<open>
  \<^verbatim>\<open>createDataChannel\<close> returns nothing (\<open>None\<close>) for an unknown peer, and the channel
  that the engine creates otherwise.
\<close>

definition createDataChannel ::
  "string \<Rightarrow> string \<Rightarrow> bool \<Rightarrow> browser \<Rightarrow> nat option result" where
  "createDataChannel id' label ordered s =
     (case get_m (dataConnections (webrtc s)) id' of
        None \<Rightarrow> (Inr None, s)
      | Some conn \<Rightarrow>
          (case pc_createDataChannel conn label
                  \<lparr> init_negotiated = False, init_id = None, init_ordered = ordered,
                    init_protocol = ''clomega'' \<rparr> s of
             (Inl e, s1) \<Rightarrow> (Inl e, s1)
           | (Inr chan, s1) \<Rightarrow> (Inr (Some chan), s1)))"


section \<open>Voice connections\<close>

text \<open>Numbers inside template strings are printed in decimal.\<close>

fun string_of_nat :: "nat \<Rightarrow> string" where
  "string_of_nat n =
     (if n < 10 then [''0123456789'' ! n]
      else string_of_nat (n div 10) @ [''0123456789'' ! (n mod 10)])"

declare string_of_nat.simps [simp del]

definition string_of_int :: "int \<Rightarrow> string" where
  "string_of_int i = (if i < 0 then ''-'' @ string_of_nat (nat (- i)) else string_of_nat (nat i))"

text \<open>\<^verbatim>\<open>conn.addTrack(track, stream)\<close> throws on a closed connection.\<close>

definition pc_addTrack :: "nat \<Rightarrow> nat \<Rightarrow> browser \<Rightarrow> unit result" where
  "pc_addTrack conn track s =
     (if pc_isClosed (pcs s ! conn) then (Inl (DOMException ''InvalidStateError''), s)
      else (Inr (), update_pc conn (\<lambda>p. p\<lparr>senders := senders p @ [track]\<rparr>) s))"

fun addTracks :: "nat \<Rightarrow> nat list \<Rightarrow> browser \<Rightarrow> unit result" where
  "addTracks conn [] s = (Inr (), s)"
| "addTracks conn (track # tracks) s =
     (case pc_addTrack conn track s of
        (Inl e, s1) \<Rightarrow> (Inl e, s1)
      | (Inr _, s1) \<Rightarrow> addTracks conn tracks s1)"

text \<open>
  The document is the list of the children of \<^verbatim>\<open>document.body\<close>, the one place where the
  code puts elements. \<^verbatim>\<open>getElementById\<close> finds the first element with the id.
\<close>

definition getElementById :: "browser \<Rightarrow> string \<Rightarrow> element option" where
  "getElementById s eid = find (\<lambda>e. element_id e = Some eid) (body s)"

definition remove_audio :: "string \<Rightarrow> nat \<Rightarrow> browser \<Rightarrow> browser" where
  "remove_audio id' n s =
     (case getElementById s (''audio_'' @ string_of_nat n @ ''_'' @ id') of
        None \<Rightarrow> s
      | Some audioElement \<Rightarrow> s\<lparr>body := remove1 audioElement (body s)\<rparr>)"

definition closeVoiceConnection :: "string \<Rightarrow> browser \<Rightarrow> browser" where
  "closeVoiceConnection id' s =
     (let s1 = (case get_m (voiceConnections (webrtc s)) id' of
                  None \<Rightarrow> s
                | Some conn \<Rightarrow>
                    pc_close conn
                      (s\<lparr>stoppedTracks := stoppedTracks s @ senders (pcs s ! conn)\<rparr>));
          s2 = (case get_m (voiceStreams (webrtc s1)) id' of
                  None \<Rightarrow> s1
                | Some streams \<Rightarrow> fold (remove_audio id') [0 ..< length streams] s1)
      in s2\<lparr>webrtc := (webrtc s2)
            \<lparr> voiceConnections := delete_m id' (voiceConnections (webrtc s2)),
              voiceIceCandidates := delete_m id' (voiceIceCandidates (webrtc s2)),
              voiceStreams := delete_m id' (voiceStreams (webrtc s2)),
              voiceIceDone := delete_m id' (voiceIceDone (webrtc s2)) \<rparr>\<rparr>)"

text \<open>
  \<^verbatim>\<open>setupVoiceConnection\<close> asks for the microphone; \<open>mic\<close> is what
  \<^verbatim>\<open>getUserMedia\<close> answers. Whatever fails, in the request or while the tracks are
  added, ends in the \<^verbatim>\<open>catch\<close>, which closes the voice connection of the id.
\<close>

definition setupVoiceConnection :: "string \<Rightarrow> MediaStream outcome \<Rightarrow> browser \<Rightarrow> browser" where
  "setupVoiceConnection id' mic s =
     (let failed = (\<lambda>e s1. closeVoiceConnection id'
                      (console_error (''Error preparing audio stream for '' @ id' @ '': ''
                                      @ message e) s1))
      in case mic of
           Rejected e \<Rightarrow> failed e s
         | Resolved stream \<Rightarrow>
             (case get_m (voiceConnections (webrtc s)) id' of
                None \<Rightarrow>
                  (if stream_tracks stream = []
                   then console_log (''Ready for voice stream with '' @ id' @ ''.'') s
                   else failed
                          (TypeError ''Cannot read properties of undefined (reading 'addTrack')'') s)
              | Some conn \<Rightarrow>
                  (case addTracks conn (stream_tracks stream) s of
                     (Inl e, s1) \<Rightarrow> failed e s1
                   | (Inr _, s1) \<Rightarrow>
                       console_log (''Ready for voice stream with '' @ id' @ ''.'') s1)))"

text \<open>The handlers that \<^verbatim>\<open>getVoiceConnection\<close> attaches to the connection \<open>conn\<close>.\<close>

definition voice_onicecandidate ::
  "string \<Rightarrow> nat \<Rightarrow> RTCIceCandidate option \<Rightarrow> browser \<Rightarrow> unit result" where
  "voice_onicecandidate id' conn cand s =
     (let pushed =
            (case cand of
               None \<Rightarrow> Inr s
             | Some c \<Rightarrow>
                 (case get_m (voiceIceCandidates (webrtc s)) id' of
                    None \<Rightarrow> Inl (TypeError ''Cannot read properties of undefined (reading 'push')'')
                  | Some cs \<Rightarrow>
                      Inr (s\<lparr>webrtc := (webrtc s)\<lparr>voiceIceCandidates :=
                             set_m id' (cs @ [c]) (voiceIceCandidates (webrtc s))\<rparr>\<rparr>)))
      in case pushed of
           Inl e \<Rightarrow> (Inl e, s)
         | Inr s1 \<Rightarrow>
             (if iceGatheringState (pcs s1 ! conn) = ICE_complete
              then (Inr (),
                    s1\<lparr>webrtc := (webrtc s1)\<lparr>voiceIceDone :=
                         set_m id' True (voiceIceDone (webrtc s1))\<rparr>\<rparr>)
              else (Inr (), s1)))"

definition voice_onconnectionstatechange :: "string \<Rightarrow> nat \<Rightarrow> browser \<Rightarrow> browser" where
  "voice_onconnectionstatechange id' conn s =
     (case connectionState (pcs s ! conn) of
        PC_new \<Rightarrow> console_log (''Voice peer '' @ id' @ '' created.'') s
      | PC_connecting \<Rightarrow> console_log (''Voice peer '' @ id' @ '' connecting...'') s
      | PC_connected \<Rightarrow> console_log (''Voice peer '' @ id' @ '' connected.'') s
      | PC_closed \<Rightarrow>
          closeVoiceConnection id' (console_log (''Voice peer '' @ id' @ '' disconnected.'') s)
      | PC_failed \<Rightarrow>
          closeVoiceConnection id' (console_log (''Voice peer '' @ id' @ '' failed.'') s)
      | PC_disconnected \<Rightarrow> s)"

text \<open>
  \<^verbatim>\<open>document.createElement('audio', options)\<close> reads only the member \<^verbatim>\<open>is\<close> of its
  options, so the element that \<^verbatim>\<open>ontrack\<close> appends carries no \<^verbatim>\<open>id\<close>.
\<close>

fun voice_addStreams :: "string \<Rightarrow> MediaStream list \<Rightarrow> browser \<Rightarrow> unit result" where
  "voice_addStreams id' [] s = (Inr (), s)"
| "voice_addStreams id' (stream # streams) s =
     (case get_m (voiceStreams (webrtc s)) id' of
        None \<Rightarrow> (Inl (TypeError ''Cannot read properties of undefined (reading 'push')''), s)
      | Some ss \<Rightarrow>
          voice_addStreams id' streams
            (s\<lparr> webrtc := (webrtc s)\<lparr>voiceStreams :=
                   set_m id' (ss @ [stream]) (voiceStreams (webrtc s))\<rparr>,
                body := body s @ [\<lparr> tagName = ''audio'', element_id = None \<rparr>] \<rparr>))"

definition voice_ontrack :: "string \<Rightarrow> MediaStream list \<Rightarrow> browser \<Rightarrow> unit result" where
  "voice_ontrack id' streams s =
     voice_addStreams id' streams
       (console_log (''Adding peer '' @ id' @ '' incoming streams: ''
                     @ string_of_nat (length streams) @ '' streams incoming.'') s)"

definition getVoiceConnection ::
  "string \<Rightarrow> bool \<Rightarrow> MediaStream outcome \<Rightarrow> browser \<Rightarrow> nat result" where
  "getVoiceConnection id' setup mic s =
     (case get_m (voiceConnections (webrtc s)) id' of
        Some conn \<Rightarrow> (Inr conn, s)
      | None \<Rightarrow>
          (let (conn, s1) = new_PeerConnection (configuration (webrtc s)) s;
               s2 = s1\<lparr>webrtc := (webrtc s1)
                      \<lparr> voiceConnections := set_m id' conn (voiceConnections (webrtc s1)),
                        voiceIceCandidates := set_m id' [] (voiceIceCandidates (webrtc s1)),
                        voiceIceDone := set_m id' False (voiceIceDone (webrtc s1)),
                        voiceStreams := set_m id' [] (voiceStreams (webrtc s1)) \<rparr>\<rparr>;
               s3 = update_pc conn
                      (\<lambda>p. p\<lparr> onicecandidate := VoiceClosure id',
                              onconnectionstatechange := VoiceClosure id',
                              ontrack := VoiceClosure id' \<rparr>) s2
           in (Inr conn, if setup then setupVoiceConnection id' mic s3 else s3)))"

section \<open>Signalling\<close>

text \<open>
  \<open>setup\<close> is an optional parameter: \<open>None\<close> when the caller leaves it out. The
  answers of the engine to the asynchronous calls are parameters of the model, and a call
  runs to its end before anything else happens.
\<close>

definition getConnectionObject ::
  "string \<Rightarrow> int \<Rightarrow> bool option \<Rightarrow> MediaStream outcome \<Rightarrow> browser \<Rightarrow> nat result" where
  "getConnectionObject id' mode setup mic s =
     (if mode = 0 then getDataConnection id' s
      else if mode = 1 then
        (case setup of
           None \<Rightarrow> (Inl (Error ''Missing setup parameter for voice connection.''), s)
         | Some b \<Rightarrow> getVoiceConnection id' b mic s)
      else
        (Inl (Error (''Invalid connection mode. Expected 0 (data) or 1 (voice), got ''
                     @ string_of_int mode @ '' instead.'')), s))"

definition createOffer ::
  "string \<Rightarrow> string \<Rightarrow> int \<Rightarrow> bool option \<Rightarrow> MediaStream outcome \<Rightarrow>
   RTCSessionDescriptionInit outcome \<Rightarrow> unit outcome \<Rightarrow> browser \<Rightarrow>
   RTCSessionDescriptionInit option \<times> browser" where
  "createOffer id' name mode setup mic created applied s =
     (let failed = (\<lambda>e s1. (None, console_error (''Failed to create offer: '' @ message e) s1))
      in case getConnectionObject id' mode setup mic s of
           (Inl e, s1) \<Rightarrow> failed e s1
         | (Inr conn, s1) \<Rightarrow>
             (let s2 = update_pc conn (\<lambda>p. p\<lparr>pc_name := Some name\<rparr>) s1
              in case created of
                   Rejected e \<Rightarrow> failed e s2
                 | Resolved offer \<Rightarrow>
                     (case applied of
                        Rejected e \<Rightarrow> failed e s2
                      | Resolved _ \<Rightarrow>
                          (Some offer,
                           update_pc conn (\<lambda>p. p\<lparr>localDescription := Some offer\<rparr>) s2))))"

definition createAnswer ::
  "string \<Rightarrow> string \<Rightarrow> int \<Rightarrow> RTCSessionDescriptionInit \<Rightarrow> bool option \<Rightarrow>
   MediaStream outcome \<Rightarrow> unit outcome \<Rightarrow> RTCSessionDescriptionInit outcome \<Rightarrow>
   unit outcome \<Rightarrow> browser \<Rightarrow> RTCSessionDescriptionInit option \<times> browser" where
  "createAnswer id' name mode offer setup mic remote created applied s =
     (let failed = (\<lambda>e s1. (None, console_error (''Failed to create answer: '' @ message e) s1))
      in case getConnectionObject id' mode setup mic s of
           (Inl e, s1) \<Rightarrow> failed e s1
         | (Inr conn, s1) \<Rightarrow>
             (let s2 = update_pc conn (\<lambda>p. p\<lparr>pc_name := Some name\<rparr>) s1
              in case remote of
                   Rejected e \<Rightarrow> failed e s2
                 | Resolved _ \<Rightarrow>
                     (let s3 = update_pc conn (\<lambda>p. p\<lparr>remoteDescription := Some offer\<rparr>) s2
                      in case created of
                           Rejected e \<Rightarrow> failed e s3
                         | Resolved answer \<Rightarrow>
                             (case applied of
                                Rejected e \<Rightarrow> failed e s3
                              | Resolved _ \<Rightarrow>
                                  (Some answer,
                                   update_pc conn
                                     (\<lambda>p. p\<lparr>localDescription := Some answer\<rparr>) s3)))))"

text \<open>
  \<^verbatim>\<open>handleAnswer\<close> calls \<^verbatim>\<open>getConnectionObject(id, mode)\<close> without \<^verbatim>\<open>setup\<close>, so
  the microphone is never asked for; \<open>remote\<close> is what \<^verbatim>\<open>setRemoteDescription\<close>
  answers.
\<close>

definition handleAnswer ::
  "string \<Rightarrow> int \<Rightarrow> RTCSessionDescriptionInit \<Rightarrow> unit outcome \<Rightarrow> browser \<Rightarrow> browser" where
  "handleAnswer id' mode answer remote s =
     (case getConnectionObject id' mode None (Rejected (Error [])) s of
        (Inl e, s1) \<Rightarrow> console_error (''Failed to handle answer: '' @ message e) s1
      | (Inr conn, s1) \<Rightarrow>
          (case remote of
             Rejected e \<Rightarrow> console_error (''Failed to handle answer: '' @ message e) s1
           | Resolved _ \<Rightarrow> update_pc conn (\<lambda>p. p\<lparr>remoteDescription := Some answer\<rparr>) s1))"

definition handleIceCandidate ::
  "string \<Rightarrow> int \<Rightarrow> RTCIceCandidate \<Rightarrow> bool option \<Rightarrow> MediaStream outcome \<Rightarrow>
   unit outcome \<Rightarrow> browser \<Rightarrow> browser" where
  "handleIceCandidate id' mode cand setup mic added s =
     (case getConnectionObject id' mode setup mic s of
        (Inl e, s1) \<Rightarrow> console_error (''Failed to handle ICE candidate: '' @ message e) s1
      | (Inr conn, s1) \<Rightarrow>
          (case added of
             Rejected e \<Rightarrow> console_error (''Failed to handle ICE candidate: '' @ message e) s1
           | Resolved _ \<Rightarrow>
               update_pc conn (\<lambda>p. p\<lparr>addedIceCandidates := addedIceCandidates p @ [cand]\<rparr>) s1))"

definition relayOnly :: "bool \<Rightarrow> browser \<Rightarrow> browser" where
  "relayOnly mode s =
     s\<lparr>webrtc := (webrtc s)\<lparr>configuration := (configuration (webrtc s))
          \<lparr>iceTransportPolicy := (if mode then Policy_relay else Policy_all)\<rparr>\<rparr>\<rparr>"

definition supportsTrickeIce :: "bool \<Rightarrow> browser \<Rightarrow> browser" where
  "supportsTrickeIce mode s =
     s\<lparr>webrtc := (webrtc s)\<lparr>configuration := (configuration (webrtc s))
          \<lparr>supportsTrickleIce := mode\<rparr>\<rparr>\<rparr>"


section \<open>The page as a transition system\<close>

text \<open>
  The engine delivers an event to a connection only while the connection is not closed.
  Before it calls the handler it has put the new state into the object, which is where the
  handler reads it. An event of a channel goes to the closure bound to the channel.
\<close>

definition dispatch_icecandidate ::
  "nat \<Rightarrow> RTCIceCandidate option \<Rightarrow> RTCIceGatheringState \<Rightarrow> browser \<Rightarrow> unit result" where
  "dispatch_icecandidate conn cand gathering s =
     (if conn < length (pcs s) \<and> \<not> pc_isClosed (pcs s ! conn) then
        (let s1 = update_pc conn (\<lambda>p. p\<lparr>iceGatheringState := gathering\<rparr>) s
         in case onicecandidate (pcs s1 ! conn) of
              DataClosure id' \<Rightarrow> data_onicecandidate id' conn cand s1
            | VoiceClosure id' \<Rightarrow> voice_onicecandidate id' conn cand s1
            | NoHandler \<Rightarrow> (Inr (), s1))
      else (Inr (), s))"

definition dispatch_connectionstatechange ::
  "nat \<Rightarrow> RTCPeerConnectionState \<Rightarrow> browser \<Rightarrow> browser" where
  "dispatch_connectionstatechange conn state s =
     (if conn < length (pcs s) \<and> \<not> pc_isClosed (pcs s ! conn) then
        (let s1 = update_pc conn (\<lambda>p. p\<lparr>connectionState := state\<rparr>) s
         in case onconnectionstatechange (pcs s1 ! conn) of
              DataClosure id' \<Rightarrow> data_onconnectionstatechange id' conn s1
            | VoiceClosure id' \<Rightarrow> voice_onconnectionstatechange id' conn s1
            | NoHandler \<Rightarrow> s1)
      else s)"

text \<open>The remote peer has opened a channel in-band: the engine makes the object and announces it.\<close>

definition dispatch_datachannel ::
  "nat \<Rightarrow> string \<Rightarrow> RTCDataChannelInit \<Rightarrow> browser \<Rightarrow> unit result" where
  "dispatch_datachannel conn label init s =
     (if conn < length (pcs s) \<and> \<not> pc_isClosed (pcs s ! conn) then
        (case pc_createDataChannel conn label init s of
           (Inl e, s1) \<Rightarrow> (Inr (), s1)
         | (Inr chan, s1) \<Rightarrow>
             (case ondatachannel (pcs s1 ! conn) of
                DataClosure id' \<Rightarrow> data_ondatachannel id' chan s1
              | VoiceClosure id' \<Rightarrow> (Inr (), s1)
              | NoHandler \<Rightarrow> (Inr (), s1)))
      else (Inr (), s))"

definition dispatch_track :: "nat \<Rightarrow> MediaStream list \<Rightarrow> browser \<Rightarrow> unit result" where
  "dispatch_track conn streams s =
     (if conn < length (pcs s) \<and> \<not> pc_isClosed (pcs s ! conn) then
        (case ontrack (pcs s ! conn) of
           VoiceClosure id' \<Rightarrow> voice_ontrack id' streams s
         | DataClosure id' \<Rightarrow> (Inr (), s)
         | NoHandler \<Rightarrow> (Inr (), s))
      else (Inr (), s))"

definition dispatch_message :: "nat \<Rightarrow> string \<Rightarrow> browser \<Rightarrow> unit result" where
  "dispatch_message chan data s =
     (if chan < length (chans s) then
        (case onmessage (chans s ! chan) of
           ChanClosure id' label \<Rightarrow> chan_onmessage id' label data s
         | NoChanHandler \<Rightarrow> (Inr (), s))
      else (Inr (), s))"

definition dispatch_open :: "nat \<Rightarrow> browser \<Rightarrow> browser" where
  "dispatch_open chan s =
     (if chan < length (chans s) then
        (let s1 = update_chan chan (\<lambda>c. c\<lparr>readyState := CH_open\<rparr>) s
         in case onopen (chans s1 ! chan) of
              ChanClosure id' label \<Rightarrow> chan_onopen id' label s1
            | NoChanHandler \<Rightarrow> s1)
      else s)"

definition dispatch_close :: "nat \<Rightarrow> browser \<Rightarrow> browser" where
  "dispatch_close chan s =
     (if chan < length (chans s) then
        (let s1 = update_chan chan (\<lambda>c. c\<lparr>readyState := CH_closed\<rparr>) s
         in case onclose (chans s1 ! chan) of
              ChanClosure id' label \<Rightarrow> chan_onclose id' label s1
            | NoChanHandler \<Rightarrow> s1)
      else s)"

text \<open>
  What can happen to the page: a call of a method of the registry, or an event of the
  engine. The answers of the engine to asynchronous calls travel with the call. The
  queries change nothing and are left out, and so is the event \<^verbatim>\<open>bufferedamountlow\<close>,
  which only resolves the promise of \<^verbatim>\<open>sendData\<close>.
\<close>

datatype action =
    Call_on string nat
  | Call_relayOnly bool
  | Call_supportsTrickeIce bool
  | Call_fire string "evarg list"
  | Call_createOffer string string int "bool option" "MediaStream outcome"
      "RTCSessionDescriptionInit outcome" "unit outcome"
  | Call_createAnswer string string int RTCSessionDescriptionInit "bool option"
      "MediaStream outcome" "unit outcome" "RTCSessionDescriptionInit outcome" "unit outcome"
  | Call_handleAnswer string int RTCSessionDescriptionInit "unit outcome"
  | Call_handleIceCandidate string int RTCIceCandidate "bool option" "MediaStream outcome"
      "unit outcome"
  | Call_getConnectionObject string int "bool option" "MediaStream outcome"
  | Call_closeChannel string string
  | Call_getDataConnection string
  | Call_handleDataChannel nat string string
  | Call_sendData string string string bool
  | Call_setupVoiceConnection string "MediaStream outcome"
  | Call_closeDataConnection string
  | Call_closeVoiceConnection string
  | Call_createDataChannel string string bool
  | Call_getVoiceConnection string bool "MediaStream outcome"
  | Event_icecandidate nat "RTCIceCandidate option" RTCIceGatheringState
  | Event_connectionstatechange nat RTCPeerConnectionState
  | Event_datachannel nat string RTCDataChannelInit
  | Event_track nat "MediaStream list"
  | Event_message nat string
  | Event_open nat
  | Event_close nat

fun step :: "action \<Rightarrow> browser \<Rightarrow> browser" where
  "step (Call_on eventName callback) s = on eventName callback s"
| "step (Call_relayOnly mode) s = relayOnly mode s"
| "step (Call_supportsTrickeIce mode) s = supportsTrickeIce mode s"
| "step (Call_fire eventName args) s = fire eventName args s"
| "step (Call_createOffer id' name mode setup mic created applied) s =
     snd (createOffer id' name mode setup mic created applied s)"
| "step (Call_createAnswer id' name mode offer setup mic remote created applied) s =
     snd (createAnswer id' name mode offer setup mic remote created applied s)"
| "step (Call_handleAnswer id' mode answer remote) s = handleAnswer id' mode answer remote s"
| "step (Call_handleIceCandidate id' mode cand setup mic added) s =
     handleIceCandidate id' mode cand setup mic added s"
| "step (Call_getConnectionObject id' mode setup mic) s =
     snd (getConnectionObject id' mode setup mic s)"
| "step (Call_closeChannel id' label) s = snd (closeChannel id' label s)"
| "step (Call_getDataConnection id') s = snd (getDataConnection id' s)"
| "step (Call_handleDataChannel chan label id') s = snd (handleDataChannel chan label id' s)"
| "step (Call_sendData id' label data wait) s = snd (sendData id' label data wait s)"
| "step (Call_setupVoiceConnection id' mic) s = setupVoiceConnection id' mic s"
| "step (Call_closeDataConnection id') s = closeDataConnection id' s"
| "step (Call_closeVoiceConnection id') s = closeVoiceConnection id' s"
| "step (Call_createDataChannel id' label ordered) s =
     snd (createDataChannel id' label ordered s)"
| "step (Call_getVoiceConnection id' setup mic) s = snd (getVoiceConnection id' setup mic s)"
| "step (Event_icecandidate conn cand gathering) s =
     snd (dispatch_icecandidate conn cand gathering s)"
| "step (Event_connectionstatechange conn state) s = dispatch_connectionstatechange conn state s"
| "step (Event_datachannel conn label init) s = snd (dispatch_datachannel conn label init s)"
| "step (Event_track conn streams) s = snd (dispatch_track conn streams s)"
| "step (Event_message chan data) s = snd (dispatch_message chan data s)"
| "step (Event_open chan) s = dispatch_open chan s"
| "step (Event_close chan) s = dispatch_close chan s"

text \<open>The states of the page: what a sequence of calls and events makes of the first one.\<close>

definition run :: "action list \<Rightarrow> browser \<Rightarrow> browser" where
  "run as s = fold step as s"

inductive reachable :: "browser \<Rightarrow> bool" where
  reachable_initial: "reachable initial"
| reachable_step: "reachable s \<Longrightarrow> reachable (step a s)"


section \<open>Observations used by the properties\<close>

text \<open>The callbacks registered for an event, in the order of their registration.\<close>

definition callbacks :: "browser \<Rightarrow> string \<Rightarrow> nat list" where
  "callbacks s eventName =
     (case get_m (eventHandlers (webrtc s)) eventName of None \<Rightarrow> [] | Some cbs \<Rightarrow> cbs)"

text \<open>The five maps of the data mode, and the four of the voice mode, have the same keys.\<close>

definition data_keys_agree :: "OmegaRTC \<Rightarrow> bool" where
  "data_keys_agree w \<longleftrightarrow>
     set (keys_m (dataChannels w)) = set (keys_m (dataConnections w)) \<and>
     set (keys_m (dataStorage w)) = set (keys_m (dataConnections w)) \<and>
     set (keys_m (dataIceCandidates w)) = set (keys_m (dataConnections w)) \<and>
     set (keys_m (dataIceDone w)) = set (keys_m (dataConnections w))"

definition voice_keys_agree :: "OmegaRTC \<Rightarrow> bool" where
  "voice_keys_agree w \<longleftrightarrow>
     set (keys_m (voiceStreams w)) = set (keys_m (voiceConnections w)) \<and>
     set (keys_m (voiceIceCandidates w)) = set (keys_m (voiceConnections w)) \<and>
     set (keys_m (voiceIceDone w)) = set (keys_m (voiceConnections w))"

text \<open>
  A connection that is not closed is the one registered under the id that its
  \<^verbatim>\<open>onicecandidate\<close> handler captured.
\<close>

definition registered_as :: "browser \<Rightarrow> nat \<Rightarrow> pc_closure \<Rightarrow> bool" where
  "registered_as s conn h =
     (case h of
        NoHandler \<Rightarrow> True
      | DataClosure id' \<Rightarrow> get_m (dataConnections (webrtc s)) id' = Some conn
      | VoiceClosure id' \<Rightarrow> get_m (voiceConnections (webrtc s)) id' = Some conn)"

definition live_registered :: "browser \<Rightarrow> bool" where
  "live_registered s \<longleftrightarrow>
     (\<forall>conn < length (pcs s).
        \<not> pc_isClosed (pcs s ! conn) \<longrightarrow> registered_as s conn (onicecandidate (pcs s ! conn)))"

definition invariant :: "browser \<Rightarrow> bool" where
  "invariant s \<longleftrightarrow>
     data_keys_agree (webrtc s) \<and> voice_keys_agree (webrtc s) \<and> live_registered s"

text \<open>
  A step is quiet when it leaves the connection maps and the done flags as they are, keeps
  the keys of the other maps, and every connection that is open after it either has no
  candidate handler or was open before with the same handler.
\<close>

definition quiet :: "browser \<Rightarrow> browser \<Rightarrow> bool" where
  "quiet s s' \<longleftrightarrow>
     dataConnections (webrtc s') = dataConnections (webrtc s) \<and>
     voiceConnections (webrtc s') = voiceConnections (webrtc s) \<and>
     dataIceDone (webrtc s') = dataIceDone (webrtc s) \<and>
     voiceIceDone (webrtc s') = voiceIceDone (webrtc s) \<and>
     set (keys_m (dataChannels (webrtc s'))) = set (keys_m (dataChannels (webrtc s))) \<and>
     set (keys_m (dataStorage (webrtc s'))) = set (keys_m (dataStorage (webrtc s))) \<and>
     set (keys_m (dataIceCandidates (webrtc s'))) = set (keys_m (dataIceCandidates (webrtc s))) \<and>
     set (keys_m (voiceStreams (webrtc s'))) = set (keys_m (voiceStreams (webrtc s))) \<and>
     set (keys_m (voiceIceCandidates (webrtc s'))) = set (keys_m (voiceIceCandidates (webrtc s))) \<and>
     (\<forall>i < length (pcs s').
        \<not> pc_isClosed (pcs s' ! i) \<longrightarrow>
          onicecandidate (pcs s' ! i) = NoHandler \<or>
          i < length (pcs s) \<and> \<not> pc_isClosed (pcs s ! i) \<and>
          onicecandidate (pcs s' ! i) = onicecandidate (pcs s ! i))"

text \<open>The page right after \<^verbatim>\<open>getVoiceConnection\<close> has registered a new connection.\<close>

definition voice_created :: "string \<Rightarrow> browser \<Rightarrow> browser" where
  "voice_created id' s =
     s\<lparr> webrtc := (webrtc s)
          \<lparr> voiceConnections := set_m id' (length (pcs s)) (voiceConnections (webrtc s)),
            voiceIceCandidates := set_m id' [] (voiceIceCandidates (webrtc s)),
            voiceIceDone := set_m id' False (voiceIceDone (webrtc s)),
            voiceStreams := set_m id' [] (voiceStreams (webrtc s)) \<rparr>,
        pcs := pcs s @
          [\<lparr> pc_name = None, pc_configuration = configuration (webrtc s),
             connectionState = PC_new, iceGatheringState = ICE_new, pc_isClosed = False,
             localDescription = None, remoteDescription = None,
             addedIceCandidates = [], senders = [],
             onicecandidate = VoiceClosure id', onconnectionstatechange = VoiceClosure id',
             ondatachannel = NoHandler, ontrack = VoiceClosure id' \<rparr>] \<rparr>"

text \<open>What \<^verbatim>\<open>doneGatheringIce\<close> reads: the data connections and their done flags.\<close>

definition ice_view :: "browser \<Rightarrow> (string, nat) jsmap \<times> (string, bool) jsmap" where
  "ice_view s = (dataConnections (webrtc s), dataIceDone (webrtc s))"

text \<open>
  A step that does not end a gathering leaves that view alone, registers a new connection
  with a false flag, or removes an id from both maps.
\<close>

definition ice_plain :: "browser \<Rightarrow> browser \<Rightarrow> bool" where
  "ice_plain s s' \<longleftrightarrow>
     ice_view s' = ice_view s \<or>
     (\<exists>id'. get_m (dataConnections (webrtc s)) id' = None \<and>
        ice_view s' = (set_m id' (length (pcs s)) (dataConnections (webrtc s)),
                       set_m id' False (dataIceDone (webrtc s)))) \<or>
     (\<exists>id'. ice_view s' = (delete_m id' (dataConnections (webrtc s)),
                            delete_m id' (dataIceDone (webrtc s))))"

text \<open>The engine reports the end of the gathering to an open connection created for the id.\<close>

definition ice_completed :: "action \<Rightarrow> string \<Rightarrow> browser \<Rightarrow> bool" where
  "ice_completed a id' s \<longleftrightarrow>
     (\<exists>conn cand. a = Event_icecandidate conn cand ICE_complete \<and> conn < length (pcs s) \<and>
        \<not> pc_isClosed (pcs s ! conn) \<and> onicecandidate (pcs s ! conn) = DataClosure id')"

section \<open>Some states of the page\<close>

text \<open>
  A host candidate, and the page after the peer \<^verbatim>\<open>bob\<close> has been created, while its
  candidates are being gathered, and after the gathering has ended.
\<close>

definition host_candidate :: RTCIceCandidate where
  "host_candidate =
     \<lparr> candidate = ''candidate:1 1 udp 2122260223 192.0.2.1 54321 typ host'',
       sdpMid = Some ''0'', sdpMLineIndex = Some 0, usernameFragment = None \<rparr>"

definition bob_created :: browser where
  "bob_created = run [Call_getDataConnection ''bob''] initial"

definition bob_gathering :: browser where
  "bob_gathering =
     run [Call_getDataConnection ''bob'',
          Event_icecandidate 0 (Some host_candidate) ICE_gathering] initial"

definition bob_gathered :: browser where
  "bob_gathered =
     run [Call_getDataConnection ''bob'',
          Event_icecandidate 0 (Some host_candidate) ICE_gathering,
          Event_icecandidate 0 None ICE_complete] initial"



section \<open>Facts about maps\<close>

lemma has_m_get_m: "has_m m k \<longleftrightarrow> get_m m k \<noteq> None"
  by (simp add: has_m_def get_m_def map_of_eq_None_iff)

lemma get_m_set_m: "get_m (set_m k v m) k' = (if k' = k then Some v else get_m m k')"
  by (simp add: get_m_def set_m_def update_conv')

lemma has_m_set_m: "has_m (set_m k v m) k' \<longleftrightarrow> k' = k \<or> has_m m k'"
  by (simp add: has_m_get_m get_m_set_m)

lemma get_m_delete_m: "get_m (delete_m k m) k' = (if k' = k then None else get_m m k')"
  by (simp add: get_m_def delete_m_def delete_conv')

lemma has_m_delete_m: "has_m (delete_m k m) k' \<longleftrightarrow> k' \<noteq> k \<and> has_m m k'"
  by (simp add: has_m_get_m get_m_delete_m)


lemma get_m_Nil: "get_m [] k = None"
  by (simp add: get_m_def)

lemma has_m_Nil: "\<not> has_m [] k"
  by (simp add: has_m_def)

lemma keys_m_set_m: "set (keys_m (set_m k v m)) = insert k (set (keys_m m))"
  by (simp add: keys_m_def set_m_def dom_update)

lemma keys_m_delete_m: "set (keys_m (delete_m k m)) = set (keys_m m) - {k}"
  by (auto simp: keys_m_def delete_m_def delete_keys)

lemma has_m_keys_m: "has_m m k \<longleftrightarrow> k \<in> set (keys_m m)"
  by (simp add: has_m_def keys_m_def)

subsection \<open>What each primitive leaves alone\<close>

lemma console_log_frame [simp]:
  "webrtc (console_log m s) = webrtc s" "pcs (console_log m s) = pcs s"
  "chans (console_log m s) = chans s" "invoked (console_log m s) = invoked s"
  "body (console_log m s) = body s" "stoppedTracks (console_log m s) = stoppedTracks s"
  by (simp_all add: console_log_def)

lemma console_error_frame [simp]:
  "webrtc (console_error m s) = webrtc s" "pcs (console_error m s) = pcs s"
  "chans (console_error m s) = chans s" "invoked (console_error m s) = invoked s"
  "body (console_error m s) = body s" "stoppedTracks (console_error m s) = stoppedTracks s"
  by (simp_all add: console_error_def)

lemma fire_frame [simp]:
  "webrtc (fire e a s) = webrtc s" "pcs (fire e a s) = pcs s"
  "chans (fire e a s) = chans s" "console (fire e a s) = console s"
  "body (fire e a s) = body s" "stoppedTracks (fire e a s) = stoppedTracks s"
  by (simp_all add: fire_def split: option.splits)

lemma update_pc_frame [simp]:
  "webrtc (update_pc c f s) = webrtc s" "pcs (update_pc c f s) = (pcs s)[c := f (pcs s ! c)]"
  "chans (update_pc c f s) = chans s" "console (update_pc c f s) = console s"
  "invoked (update_pc c f s) = invoked s"
  "body (update_pc c f s) = body s" "stoppedTracks (update_pc c f s) = stoppedTracks s"
  by (simp_all add: update_pc_def)

lemma update_chan_frame [simp]:
  "webrtc (update_chan c f s) = webrtc s" "pcs (update_chan c f s) = pcs s"
  "chans (update_chan c f s) = (chans s)[c := f (chans s ! c)]"
  "console (update_chan c f s) = console s"
  "invoked (update_chan c f s) = invoked s"
  "body (update_chan c f s) = body s" "stoppedTracks (update_chan c f s) = stoppedTracks s"
  by (simp_all add: update_chan_def)

lemma chan_close_frame [simp]:
  "webrtc (chan_close c s) = webrtc s" "pcs (chan_close c s) = pcs s"
  "console (chan_close c s) = console s" "invoked (chan_close c s) = invoked s"
  "body (chan_close c s) = body s" "stoppedTracks (chan_close c s) = stoppedTracks s"
  by (simp_all add: chan_close_def)

lemma fold_chan_close_frame [simp]:
  "webrtc (fold chan_close cs s) = webrtc s" "pcs (fold chan_close cs s) = pcs s"
  "console (fold chan_close cs s) = console s" "invoked (fold chan_close cs s) = invoked s"
  "body (fold chan_close cs s) = body s"
  "stoppedTracks (fold chan_close cs s) = stoppedTracks s"
  by (induction cs arbitrary: s; simp)+

lemma pc_close_frame [simp]:
  "webrtc (pc_close c s) = webrtc s"
  "console (pc_close c s) = console s" "invoked (pc_close c s) = invoked s"
  "body (pc_close c s) = body s" "stoppedTracks (pc_close c s) = stoppedTracks s"
  "length (pcs (pc_close c s)) = length (pcs s)"
  by (simp_all add: pc_close_def)

lemma pc_close_nth:
  "i < length (pcs s) \<Longrightarrow>
   pcs (pc_close c s) ! i =
     (if i = c \<and> \<not> pc_isClosed (pcs s ! c)
      then (pcs s ! c)\<lparr>pc_isClosed := True, connectionState := PC_closed\<rparr> else pcs s ! i)"
  by (simp add: pc_close_def)

lemma pc_close_closed: "c < length (pcs s) \<Longrightarrow> pc_isClosed (pcs (pc_close c s) ! c)"
  by (simp add: pc_close_nth)

lemma pc_close_other:
  "i \<noteq> c \<Longrightarrow> pcs (pc_close c s) ! i = pcs s ! i"
  by (simp add: pc_close_def)

lemma new_PeerConnection_frame [simp]:
  "fst (new_PeerConnection cfg s) = length (pcs s)"
  "webrtc (snd (new_PeerConnection cfg s)) = webrtc s"
  "chans (snd (new_PeerConnection cfg s)) = chans s"
  "console (snd (new_PeerConnection cfg s)) = console s"
  "invoked (snd (new_PeerConnection cfg s)) = invoked s"
  "length (pcs (snd (new_PeerConnection cfg s))) = Suc (length (pcs s))"
  by (simp_all add: new_PeerConnection_def)

lemma pc_createDataChannel_frame [simp]:
  "webrtc (snd (pc_createDataChannel c l i s)) = webrtc s"
  "pcs (snd (pc_createDataChannel c l i s)) = pcs s"
  "console (snd (pc_createDataChannel c l i s)) = console s"
  "invoked (snd (pc_createDataChannel c l i s)) = invoked s"
  by (simp_all add: pc_createDataChannel_def)

lemma chan_send_frame [simp]:
  "webrtc (snd (chan_send c d s)) = webrtc s"
  "pcs (snd (chan_send c d s)) = pcs s"
  by (simp_all add: chan_send_def)

subsection \<open>Closing a data connection\<close>

lemma closeDataConnection_webrtc:
  "webrtc (closeDataConnection id' s) =
     (webrtc s)\<lparr> dataConnections := delete_m id' (dataConnections (webrtc s)),
              dataChannels := delete_m id' (dataChannels (webrtc s)),
              dataStorage := delete_m id' (dataStorage (webrtc s)),
              dataIceCandidates := delete_m id' (dataIceCandidates (webrtc s)),
              dataIceDone := delete_m id' (dataIceDone (webrtc s)) \<rparr>"
  by (simp add: closeDataConnection_def Let_def split: option.splits)

lemma closeDataConnection_pcs:
  "pcs (closeDataConnection id' s) =
     (case get_m (dataConnections (webrtc s)) id' of
        None \<Rightarrow> pcs s
      | Some c \<Rightarrow> pcs (pc_close c (fold chan_close
           (case get_m (dataChannels (webrtc s)) id' of None \<Rightarrow> [] | Some m \<Rightarrow> values_m m) s)))"
  by (simp add: closeDataConnection_def Let_def split: option.splits)



subsection \<open>Creating a data connection\<close>

lemma set_m_set_m: "set_m k v (set_m k v' m) = set_m k v m"
  by (simp add: set_m_def)

lemma getDataConnection_existing:
  "get_m (dataConnections (webrtc s)) id' = Some conn \<Longrightarrow> getDataConnection id' s = (Inr conn, s)"
  by (simp add: getDataConnection_def)

lemma getDataConnection_fresh:
  assumes "get_m (dataConnections (webrtc s)) id' = None"
  shows "fst (getDataConnection id' s) = Inr (length (pcs s))"
    and "webrtc (snd (getDataConnection id' s)) =
           (webrtc s)
             \<lparr> dataConnections := set_m id' (length (pcs s)) (dataConnections (webrtc s)),
               dataIceCandidates := set_m id' [] (dataIceCandidates (webrtc s)),
               dataIceDone := set_m id' False (dataIceDone (webrtc s)),
               dataStorage := set_m id' [] (dataStorage (webrtc s)),
               dataChannels := set_m id' [(''default'', length (chans s))] (dataChannels (webrtc s)) \<rparr>"
    and "pcs (snd (getDataConnection id' s)) =
           pcs s @
             [\<lparr> pc_name = None, pc_configuration = configuration (webrtc s),
                connectionState = PC_new, iceGatheringState = ICE_new, pc_isClosed = False,
                localDescription = None, remoteDescription = None,
                addedIceCandidates = [], senders = [],
                onicecandidate = DataClosure id', onconnectionstatechange = DataClosure id',
                ondatachannel = DataClosure id', ontrack = NoHandler \<rparr>]"
    and "chans (snd (getDataConnection id' s)) =
           chans s @
             [\<lparr> ch_connection = length (pcs s), ch_label = ''default'',
                ch_negotiated = True, ch_id = Some 0, ch_ordered = True, ch_protocol = [],
                readyState = CH_connecting, bufferedAmountLowThreshold = 0, sent = [],
                onmessage = ChanClosure id' ''default'', onopen = ChanClosure id' ''default'',
                onclose = ChanClosure id' ''default'', onbufferedamountlow = False \<rparr>]"
    and "console (snd (getDataConnection id' s)) = console s"
    and "invoked (snd (getDataConnection id' s)) = invoked s"
  using assms
  by (simp_all add: getDataConnection_def new_PeerConnection_def pc_createDataChannel_def
      handleDataChannel_def update_chan_def update_pc_def Let_def get_m_set_m set_m_set_m
      set_m_def[of "''default''"])

subsection \<open>The close event of the default channel\<close>




lemma callbacks_cong: "webrtc s' = webrtc s \<Longrightarrow> callbacks s' e = callbacks s e"
  by (simp add: callbacks_def)

lemma closeDataConnection_callbacks [simp]:
  "callbacks (closeDataConnection id' s) e = callbacks s e"
  by (simp add: callbacks_def closeDataConnection_webrtc)

lemma closeDataConnection_invoked [simp]:
  "invoked (closeDataConnection id' s) = invoked s"
  by (simp add: closeDataConnection_def Let_def split: option.splits)





section \<open>The invariant of the registry\<close>

subsection \<open>Quiet steps\<close>

lemma quiet_refl [simp]: "quiet s s"
  by (simp add: quiet_def)

lemma quiet_trans: "quiet s s1 \<Longrightarrow> quiet s1 s2 \<Longrightarrow> quiet s s2"
  unfolding quiet_def by (intro conjI; (simp; fail)?) (clarsimp, metis)

lemma quiet_same: "webrtc s' = webrtc s \<Longrightarrow> pcs s' = pcs s \<Longrightarrow> quiet s s'"
  by (simp add: quiet_def)

lemma quiet_invariant: "quiet s s' \<Longrightarrow> invariant s \<Longrightarrow> invariant s'"
  unfolding quiet_def invariant_def data_keys_agree_def voice_keys_agree_def
    live_registered_def registered_as_def
  by (intro conjI; (simp; fail)?) (clarsimp split: pc_closure.splits, metis pc_closure.distinct)

lemma keys_m_set_m_present: "has_m m k \<Longrightarrow> set (keys_m (set_m k v m)) = set (keys_m m)"
  by (auto simp: keys_m_set_m has_m_keys_m)

lemma get_m_Some_has_m: "get_m m k = Some v \<Longrightarrow> has_m m k"
  by (simp add: has_m_get_m)

lemma quiet_console_log [simp]: "quiet s (console_log m s)"
  by (rule quiet_same) simp_all

lemma quiet_console_error [simp]: "quiet s (console_error m s)"
  by (rule quiet_same) simp_all

lemma quiet_fire [simp]: "quiet s (fire e a s)"
  by (rule quiet_same) simp_all

lemma quiet_update_chan [simp]: "quiet s (update_chan c f s)"
  by (rule quiet_same) simp_all

lemma quiet_chan_close [simp]: "quiet s (chan_close c s)"
  by (rule quiet_same) simp_all

lemma quiet_update_pc:
  assumes "\<And>p. pc_isClosed (f p) = pc_isClosed p" "\<And>p. onicecandidate (f p) = onicecandidate p"
  shows "quiet s (update_pc c f s)"
proof (cases "c < length (pcs s)")
  case True
  with assms show ?thesis
    by (auto simp: quiet_def nth_list_update)
next
  case False
  then show ?thesis
    by (simp add: quiet_def)
qed

lemma quiet_on [simp]: "quiet s (on e c s)"
  by (simp add: quiet_def on_def Let_def split: option.splits)

lemma quiet_relayOnly [simp]: "quiet s (relayOnly m s)"
  by (simp add: quiet_def relayOnly_def)

lemma quiet_supportsTrickeIce [simp]: "quiet s (supportsTrickeIce m s)"
  by (simp add: quiet_def supportsTrickeIce_def)

lemma quiet_chan_send [simp]: "quiet s (snd (chan_send c d s))"
  by (rule quiet_same) simp_all

lemma quiet_pc_createDataChannel [simp]: "quiet s (snd (pc_createDataChannel c l i s))"
  by (rule quiet_same) simp_all

lemma quiet_sendData [simp]: "quiet s (snd (sendData id' l d w s))"
  by (auto simp: sendData_def Let_def split: option.splits prod.splits sum.splits
      intro!: quiet_same dest!: arg_cong[where f=snd])

lemma quiet_createDataChannel [simp]: "quiet s (snd (createDataChannel id' l ord s))"
  by (auto simp: createDataChannel_def split: option.splits prod.splits sum.splits
      intro!: quiet_same dest!: arg_cong[where f=snd])

lemma quiet_handleDataChannel [simp]: "quiet s (snd (handleDataChannel c l id' s))"
  by (auto simp: handleDataChannel_def Let_def quiet_def keys_m_set_m_present get_m_Some_has_m
      split: option.splits)

lemma quiet_chan_onmessage [simp]: "quiet s (snd (chan_onmessage id' l d s))"
  by (auto simp: chan_onmessage_def Let_def quiet_def keys_m_set_m_present get_m_Some_has_m
      split: option.splits)

lemma quiet_chan_onopen [simp]: "quiet s (chan_onopen id' l s)"
  by (rule quiet_same) (simp_all add: chan_onopen_def)

lemma quiet_closeChannel [simp]: "quiet s (snd (closeChannel id' l s))"
  by (auto simp: closeChannel_def Let_def quiet_def keys_m_set_m_present get_m_Some_has_m
      split: option.splits)

lemma quiet_dispatch_message [simp]: "quiet s (snd (dispatch_message c d s))"
  by (simp add: dispatch_message_def split: ch_closure.splits)

lemma quiet_dispatch_open [simp]: "quiet s (dispatch_open c s)"
proof -
  have "quiet s (chan_onopen i l (update_chan c f s))" for i l f
    by (rule quiet_trans [OF quiet_update_chan quiet_chan_onopen])
  then show ?thesis
    by (simp add: dispatch_open_def Let_def split: ch_closure.splits)
qed

lemma quiet_dispatch_datachannel [simp]: "quiet s (snd (dispatch_datachannel c l i s))"
proof -
  have "quiet s (snd (handleDataChannel ch lb i' (snd (pc_createDataChannel c l i s))))"
    for ch lb i'
    by (rule quiet_trans [OF quiet_pc_createDataChannel quiet_handleDataChannel])
  then show ?thesis
    by (auto simp: dispatch_datachannel_def data_ondatachannel_def
        split: prod.splits sum.splits pc_closure.splits dest!: arg_cong[where f=snd])
qed

lemma nth_list_update_any: "j < length xs \<Longrightarrow> xs[i := x] ! j = (if i = j then x else xs ! j)"
  by (cases "i = j") simp_all

lemma quiet_pc_close [simp]: "quiet s (pc_close c s)"
  by (auto simp: quiet_def pc_close_def nth_list_update_any split: if_splits)

lemma quiet_new_PeerConnection [simp]: "quiet s (snd (new_PeerConnection cfg s))"
  by (auto simp: quiet_def new_PeerConnection_def nth_append)

lemma quiet_fold_chan_close [simp]: "quiet s (fold chan_close cs s)"
  by (rule quiet_same) simp_all

subsection \<open>Closing keeps the invariant\<close>

lemma data_keys_agree_closeDataConnection:
  "data_keys_agree (webrtc s) \<Longrightarrow> data_keys_agree (webrtc (closeDataConnection id' s))"
  by (simp add: data_keys_agree_def closeDataConnection_webrtc keys_m_delete_m)

lemma voice_keys_agree_closeDataConnection:
  "voice_keys_agree (webrtc (closeDataConnection id' s)) = voice_keys_agree (webrtc s)"
  by (simp add: voice_keys_agree_def closeDataConnection_webrtc)

lemma live_registered_closeDataConnection:
  assumes "live_registered s"
  shows "live_registered (closeDataConnection id' s)"
proof (cases "get_m (dataConnections (webrtc s)) id'")
  case None
  with assms show ?thesis
    by (auto simp: live_registered_def registered_as_def closeDataConnection_webrtc
        closeDataConnection_pcs get_m_delete_m split: pc_closure.splits)
next
  case (Some c)
  with assms show ?thesis
    by (auto simp: live_registered_def registered_as_def closeDataConnection_webrtc
        closeDataConnection_pcs get_m_delete_m pc_close_def nth_list_update_any
        split: pc_closure.splits if_splits)
qed

lemma invariant_closeDataConnection:
  "invariant s \<Longrightarrow> invariant (closeDataConnection id' s)"
  by (simp add: invariant_def data_keys_agree_closeDataConnection
      voice_keys_agree_closeDataConnection live_registered_closeDataConnection)

lemma remove_audio_frame [simp]:
  "webrtc (remove_audio id' n s) = webrtc s" "pcs (remove_audio id' n s) = pcs s"
  "chans (remove_audio id' n s) = chans s"
  by (simp_all add: remove_audio_def split: option.splits)

lemma fold_remove_audio_frame [simp]:
  "webrtc (fold (remove_audio id') ns s) = webrtc s"
  "pcs (fold (remove_audio id') ns s) = pcs s"
  "chans (fold (remove_audio id') ns s) = chans s"
  by (induction ns arbitrary: s; simp)+

lemma closeVoiceConnection_webrtc:
  "webrtc (closeVoiceConnection id' s) =
     (webrtc s)\<lparr> voiceConnections := delete_m id' (voiceConnections (webrtc s)),
              voiceIceCandidates := delete_m id' (voiceIceCandidates (webrtc s)),
              voiceStreams := delete_m id' (voiceStreams (webrtc s)),
              voiceIceDone := delete_m id' (voiceIceDone (webrtc s)) \<rparr>"
  by (simp add: closeVoiceConnection_def Let_def split: option.splits)

lemma closeVoiceConnection_pcs:
  "pcs (closeVoiceConnection id' s) =
     (case get_m (voiceConnections (webrtc s)) id' of
        None \<Rightarrow> pcs s
      | Some c \<Rightarrow> pcs (pc_close c s))"
  by (simp add: closeVoiceConnection_def Let_def pc_close_def split: option.splits)

lemma voice_keys_agree_closeVoiceConnection:
  "voice_keys_agree (webrtc s) \<Longrightarrow> voice_keys_agree (webrtc (closeVoiceConnection id' s))"
  by (simp add: voice_keys_agree_def closeVoiceConnection_webrtc keys_m_delete_m)

lemma data_keys_agree_closeVoiceConnection:
  "data_keys_agree (webrtc (closeVoiceConnection id' s)) = data_keys_agree (webrtc s)"
  by (simp add: data_keys_agree_def closeVoiceConnection_webrtc)

lemma live_registered_closeVoiceConnection:
  assumes "live_registered s"
  shows "live_registered (closeVoiceConnection id' s)"
proof (cases "get_m (voiceConnections (webrtc s)) id'")
  case None
  with assms show ?thesis
    by (auto simp: live_registered_def registered_as_def closeVoiceConnection_webrtc
        closeVoiceConnection_pcs get_m_delete_m split: pc_closure.splits)
next
  case (Some c)
  with assms show ?thesis
    by (auto simp: live_registered_def registered_as_def closeVoiceConnection_webrtc
        closeVoiceConnection_pcs get_m_delete_m pc_close_def nth_list_update_any
        split: pc_closure.splits if_splits)
qed

lemma invariant_closeVoiceConnection:
  "invariant s \<Longrightarrow> invariant (closeVoiceConnection id' s)"
  by (simp add: invariant_def data_keys_agree_closeVoiceConnection
      voice_keys_agree_closeVoiceConnection live_registered_closeVoiceConnection)



lemma invariant_getDataConnection:
  assumes "invariant s"
  shows "invariant (snd (getDataConnection id' s))"
proof (cases "get_m (dataConnections (webrtc s)) id'")
  case (Some conn)
  with assms show ?thesis
    by (simp add: getDataConnection_existing)
next
  case None
  note fresh = getDataConnection_fresh [OF None]
  from assms have "data_keys_agree (webrtc (snd (getDataConnection id' s)))"
    by (simp add: invariant_def data_keys_agree_def fresh keys_m_set_m)
  moreover from assms have "voice_keys_agree (webrtc (snd (getDataConnection id' s)))"
    by (simp add: invariant_def voice_keys_agree_def fresh)
  moreover from assms None have "live_registered (snd (getDataConnection id' s))"
    by (auto simp: invariant_def live_registered_def registered_as_def fresh get_m_set_m
        nth_append less_Suc_eq split: pc_closure.splits)
  ultimately show ?thesis
    by (simp add: invariant_def)
qed

subsection \<open>Voice connections keep the invariant\<close>

lemma quiet_pc_addTrack [simp]: "quiet s (snd (pc_addTrack c t s))"
  by (simp add: pc_addTrack_def quiet_update_pc)

lemma quiet_addTracks [simp]: "quiet s (snd (addTracks c ts s))"
proof (induction ts arbitrary: s)
  case Nil
  show ?case by simp
next
  case (Cons t ts)
  show ?case
  proof (cases "pc_addTrack c t s")
    case (Pair r s1)
    then have s1: "s1 = snd (pc_addTrack c t s)" by simp
    show ?thesis
    proof (cases r)
      case (Inl e)
      with Pair have "snd (addTracks c (t # ts) s) = s1" by simp
      with quiet_pc_addTrack [of s c t] s1 show ?thesis by simp
    next
      case (Inr u)
      with Pair have "snd (addTracks c (t # ts) s) = snd (addTracks c ts s1)" by simp
      moreover have "quiet s (snd (addTracks c ts s1))"
        unfolding s1 by (rule quiet_trans [OF quiet_pc_addTrack Cons.IH])
      ultimately show ?thesis by simp
    qed
  qed
qed

lemma invariant_quiet_intros:
  "invariant s \<Longrightarrow> invariant (console_log m s)"
  "invariant s \<Longrightarrow> invariant (console_error m s)"
  "invariant s \<Longrightarrow> invariant (fire e a s)"
  "invariant s \<Longrightarrow> invariant (snd (addTracks c ts s))"
  by (erule quiet_invariant [rotated], simp)+

lemma invariant_setupVoiceConnection:
  assumes "invariant s"
  shows "invariant (setupVoiceConnection id' mic s)"
  using assms
  by (auto simp: setupVoiceConnection_def Let_def
      split: outcome.splits option.splits prod.splits sum.splits
      intro!: invariant_closeVoiceConnection invariant_quiet_intros
      dest!: arg_cong[where f=snd])

lemma getVoiceConnection_existing:
  "get_m (voiceConnections (webrtc s)) id' = Some conn \<Longrightarrow>
   getVoiceConnection id' setup mic s = (Inr conn, s)"
  by (simp add: getVoiceConnection_def)

lemma getVoiceConnection_fresh:
  assumes "get_m (voiceConnections (webrtc s)) id' = None"
  shows "getVoiceConnection id' setup mic s =
           (Inr (length (pcs s)),
            if setup then setupVoiceConnection id' mic (voice_created id' s)
            else voice_created id' s)"
  using assms
  by (simp add: getVoiceConnection_def new_PeerConnection_def update_pc_def Let_def
      voice_created_def)

lemma invariant_voice_created:
  assumes "invariant s" "get_m (voiceConnections (webrtc s)) id' = None"
  shows "invariant (voice_created id' s)"
proof -
  from assms have "data_keys_agree (webrtc (voice_created id' s))"
    by (simp add: invariant_def data_keys_agree_def voice_created_def)
  moreover from assms have "voice_keys_agree (webrtc (voice_created id' s))"
    by (simp add: invariant_def voice_keys_agree_def voice_created_def keys_m_set_m)
  moreover from assms have "live_registered (voice_created id' s)"
    by (auto simp: invariant_def live_registered_def registered_as_def voice_created_def
        get_m_set_m nth_append less_Suc_eq split: pc_closure.splits)
  ultimately show ?thesis
    by (simp add: invariant_def)
qed

lemma invariant_getVoiceConnection:
  assumes "invariant s"
  shows "invariant (snd (getVoiceConnection id' setup mic s))"
proof (cases "get_m (voiceConnections (webrtc s)) id'")
  case (Some conn)
  with assms show ?thesis
    by (simp add: getVoiceConnection_existing)
next
  case None
  with assms show ?thesis
    by (simp add: getVoiceConnection_fresh invariant_voice_created
        invariant_setupVoiceConnection)
qed

lemma invariant_getConnectionObject:
  "invariant s \<Longrightarrow> invariant (snd (getConnectionObject id' mode setup mic s))"
  by (simp add: getConnectionObject_def invariant_getDataConnection
      invariant_getVoiceConnection split: option.splits)

subsection \<open>Every step keeps the invariant\<close>

lemma invariant_update_pc:
  assumes "invariant s" "\<And>p. pc_isClosed (f p) = pc_isClosed p"
    "\<And>p. onicecandidate (f p) = onicecandidate p"
  shows "invariant (update_pc c f s)"
  by (rule quiet_invariant [OF quiet_update_pc [OF assms(2,3)] assms(1)])

lemma data_onicecandidate_effect:
  "pcs (snd (data_onicecandidate id' conn cand s)) = pcs s \<and>
   webrtc (snd (data_onicecandidate id' conn cand s)) =
     (webrtc s)
       \<lparr> dataIceCandidates :=
           (case cand of
              None \<Rightarrow> dataIceCandidates (webrtc s)
            | Some c \<Rightarrow>
                (case get_m (dataIceCandidates (webrtc s)) id' of
                   None \<Rightarrow> dataIceCandidates (webrtc s)
                 | Some l \<Rightarrow> set_m id' (l @ [c]) (dataIceCandidates (webrtc s)))),
         dataIceDone :=
           (if iceGatheringState (pcs s ! conn) = ICE_complete \<and>
               (cand = None \<or> has_m (dataIceCandidates (webrtc s)) id')
            then set_m id' True (dataIceDone (webrtc s)) else dataIceDone (webrtc s)) \<rparr>"
proof (cases cand)
  case None
  show ?thesis
    unfolding None
    by (cases "iceGatheringState (pcs s ! conn)")
       (simp_all add: data_onicecandidate_def Let_def)
next
  case (Some c)
  show ?thesis
  proof (cases "get_m (dataIceCandidates (webrtc s)) id'")
    case None
    with Some show ?thesis
      by (simp add: data_onicecandidate_def has_m_get_m)
  next
    case (Some l)
    with \<open>cand = Some c\<close> show ?thesis
      by (cases "iceGatheringState (pcs s ! conn)")
         (simp_all add: data_onicecandidate_def Let_def has_m_get_m)
  qed
qed

lemma registered_as_cong:
  "dataConnections (webrtc s') = dataConnections (webrtc s) \<Longrightarrow>
   voiceConnections (webrtc s') = voiceConnections (webrtc s) \<Longrightarrow>
   registered_as s' conn h = registered_as s conn h"
  by (cases h) (simp_all add: registered_as_def)

lemma live_registered_cong:
  assumes "pcs s' = pcs s"
    and "dataConnections (webrtc s') = dataConnections (webrtc s)"
    and "voiceConnections (webrtc s') = voiceConnections (webrtc s)"
  shows "live_registered s' = live_registered s"
proof -
  have "registered_as s' conn h = registered_as s conn h" for conn h
    by (rule registered_as_cong) fact+
  with assms(1) show ?thesis
    by (simp add: live_registered_def)
qed

lemma invariant_data_onicecandidate:
  assumes "invariant s" "conn < length (pcs s)" "\<not> pc_isClosed (pcs s ! conn)"
    "onicecandidate (pcs s ! conn) = DataClosure id'"
  shows "invariant (snd (data_onicecandidate id' conn cand s))"
proof -
  let ?s' = "snd (data_onicecandidate id' conn cand s)"
  from assms have "get_m (dataConnections (webrtc s)) id' = Some conn"
    by (auto simp: invariant_def live_registered_def registered_as_def)
  then have "id' \<in> set (keys_m (dataConnections (webrtc s)))"
    by (simp add: get_m_Some_has_m has_m_keys_m [symmetric])
  then have k: "insert id' (set (keys_m (dataConnections (webrtc s)))) =
      set (keys_m (dataConnections (webrtc s)))"
    by blast
  have "live_registered ?s' = live_registered s"
    by (rule live_registered_cong) (simp_all add: data_onicecandidate_effect)
  moreover from assms(1) k have "data_keys_agree (webrtc ?s')"
    by (simp add: invariant_def data_keys_agree_def data_onicecandidate_effect keys_m_set_m
        split: option.splits)
  moreover from assms(1) have "voice_keys_agree (webrtc ?s')"
    by (simp add: invariant_def voice_keys_agree_def data_onicecandidate_effect)
  ultimately show ?thesis
    using assms(1) by (simp add: invariant_def)
qed

lemma invariant_voice_onicecandidate:
  assumes "invariant s" "conn < length (pcs s)" "\<not> pc_isClosed (pcs s ! conn)"
    "onicecandidate (pcs s ! conn) = VoiceClosure id'"
  shows "invariant (snd (voice_onicecandidate id' conn cand s))"
proof -
  from assms have "get_m (voiceConnections (webrtc s)) id' = Some conn"
    by (auto simp: invariant_def live_registered_def registered_as_def)
  then have "id' \<in> set (keys_m (voiceConnections (webrtc s)))"
    by (simp add: get_m_Some_has_m has_m_keys_m [symmetric])
  with assms(1) show ?thesis
    by (auto simp: voice_onicecandidate_def Let_def invariant_def data_keys_agree_def
        voice_keys_agree_def live_registered_def registered_as_def keys_m_set_m
        split: option.splits sum.splits pc_closure.splits)
qed

lemma invariant_dispatch_icecandidate:
  assumes "invariant s"
  shows "invariant (snd (dispatch_icecandidate conn cand g s))"
proof (cases "conn < length (pcs s) \<and> \<not> pc_isClosed (pcs s ! conn)")
  case False
  with assms show ?thesis
    by (auto simp: dispatch_icecandidate_def)
next
  case True
  let ?s1 = "update_pc conn (\<lambda>p. p\<lparr>iceGatheringState := g\<rparr>) s"
  have inv1: "invariant ?s1"
    by (rule invariant_update_pc [OF assms]) simp_all
  have live: "conn < length (pcs ?s1)" "\<not> pc_isClosed (pcs ?s1 ! conn)"
    using True by simp_all
  show ?thesis
  proof (cases "onicecandidate (pcs ?s1 ! conn)")
    case NoHandler
    with True inv1 show ?thesis
      by (simp add: dispatch_icecandidate_def Let_def)
  next
    case (DataClosure i)
    from invariant_data_onicecandidate [OF inv1 live DataClosure] True DataClosure
    show ?thesis
      by (simp add: dispatch_icecandidate_def Let_def)
  next
    case (VoiceClosure i)
    from invariant_voice_onicecandidate [OF inv1 live VoiceClosure] True VoiceClosure
    show ?thesis
      by (simp add: dispatch_icecandidate_def Let_def)
  qed
qed

lemma invariant_data_onconnectionstatechange:
  "invariant s \<Longrightarrow> invariant (data_onconnectionstatechange id' conn s)"
  by (simp add: data_onconnectionstatechange_def invariant_quiet_intros
      invariant_closeDataConnection split: RTCPeerConnectionState.splits)

lemma invariant_voice_onconnectionstatechange:
  "invariant s \<Longrightarrow> invariant (voice_onconnectionstatechange id' conn s)"
  by (simp add: voice_onconnectionstatechange_def invariant_quiet_intros
      invariant_closeVoiceConnection split: RTCPeerConnectionState.splits)

lemma invariant_dispatch_connectionstatechange:
  assumes "invariant s"
  shows "invariant (dispatch_connectionstatechange conn st s)"
proof -
  have "invariant (update_pc conn (\<lambda>p. p\<lparr>connectionState := st\<rparr>) s)"
    by (rule invariant_update_pc [OF assms]) simp_all
  with assms show ?thesis
    by (simp add: dispatch_connectionstatechange_def Let_def
        invariant_data_onconnectionstatechange invariant_voice_onconnectionstatechange
        split: pc_closure.splits)
qed

lemma invariant_chan_onclose: "invariant s \<Longrightarrow> invariant (chan_onclose id' l s)"
  by (simp add: chan_onclose_def Let_def invariant_quiet_intros invariant_closeDataConnection)

lemma invariant_dispatch_close:
  assumes "invariant s"
  shows "invariant (dispatch_close chan s)"
proof -
  have "invariant (update_chan chan f s)" for f
    by (rule quiet_invariant [OF quiet_update_chan assms])
  with assms show ?thesis
    by (simp add: dispatch_close_def Let_def invariant_chan_onclose split: ch_closure.splits)
qed

lemma quiet_voice_addStreams [simp]: "quiet s (snd (voice_addStreams id' streams s))"
proof (induction streams arbitrary: s)
  case Nil
  show ?case by simp
next
  case (Cons x xs)
  show ?case
  proof (cases "get_m (voiceStreams (webrtc s)) id'")
    case None
    then show ?thesis by simp
  next
    case (Some ss)
    let ?s1 = "s\<lparr> webrtc := (webrtc s)\<lparr>voiceStreams :=
                   set_m id' (ss @ [x]) (voiceStreams (webrtc s))\<rparr>,
                body := body s @ [\<lparr> tagName = ''audio'', element_id = None \<rparr>] \<rparr>"
    have "quiet s ?s1"
      using Some by (simp add: quiet_def keys_m_set_m_present get_m_Some_has_m)
    from quiet_trans [OF this Cons.IH] Some show ?thesis
      by simp
  qed
qed

lemma quiet_voice_ontrack [simp]: "quiet s (snd (voice_ontrack id' streams s))"
  unfolding voice_ontrack_def by (rule quiet_trans [OF quiet_console_log quiet_voice_addStreams])

lemma quiet_dispatch_track [simp]: "quiet s (snd (dispatch_track conn streams s))"
  by (simp add: dispatch_track_def split: pc_closure.splits)

lemma invariant_createOffer:
  assumes "invariant s"
  shows "invariant (snd (createOffer id' name mode setup mic created applied s))"
proof -
  obtain r s1 where g: "getConnectionObject id' mode setup mic s = (r, s1)"
    by (cases "getConnectionObject id' mode setup mic s")
  with invariant_getConnectionObject [OF assms, of id' mode "setup" mic]
  have inv1: "invariant s1" by simp
  have upd: "invariant (update_pc c (\<lambda>p. p\<lparr>pc_name := Some name\<rparr>) s1)" for c
    by (rule invariant_update_pc [OF inv1]) simp_all
  have upd2: "invariant (update_pc c' (\<lambda>p. p\<lparr>localDescription := d\<rparr>)
                 (update_pc c (\<lambda>p. p\<lparr>pc_name := Some name\<rparr>) s1))" for c c' d
    by (rule invariant_update_pc [OF upd]) simp_all
  show ?thesis
    using g inv1 upd upd2
    by (simp add: createOffer_def Let_def invariant_quiet_intros
        split: sum.splits outcome.splits)
qed

lemma invariant_createAnswer:
  assumes "invariant s"
  shows "invariant (snd (createAnswer id' name mode offer setup mic remote created applied s))"
proof -
  obtain r s1 where g: "getConnectionObject id' mode setup mic s = (r, s1)"
    by (cases "getConnectionObject id' mode setup mic s")
  with invariant_getConnectionObject [OF assms, of id' mode "setup" mic]
  have inv1: "invariant s1" by simp
  have upd: "invariant (update_pc c (\<lambda>p. p\<lparr>pc_name := Some name\<rparr>) s1)" for c
    by (rule invariant_update_pc [OF inv1]) simp_all
  have upd2: "invariant (update_pc c' (\<lambda>p. p\<lparr>remoteDescription := d\<rparr>)
                 (update_pc c (\<lambda>p. p\<lparr>pc_name := Some name\<rparr>) s1))" for c c' d
    by (rule invariant_update_pc [OF upd]) simp_all
  have upd3: "invariant (update_pc c'' (\<lambda>p. p\<lparr>localDescription := d'\<rparr>)
                 (update_pc c' (\<lambda>p. p\<lparr>remoteDescription := d\<rparr>)
                 (update_pc c (\<lambda>p. p\<lparr>pc_name := Some name\<rparr>) s1)))" for c c' c'' d d'
    by (rule invariant_update_pc [OF upd2]) simp_all
  show ?thesis
    using g inv1 upd upd2 upd3
    by (simp add: createAnswer_def Let_def invariant_quiet_intros
        split: sum.splits outcome.splits)
qed

lemma invariant_handleAnswer:
  assumes "invariant s"
  shows "invariant (handleAnswer id' mode answer remote s)"
proof -
  obtain r s1 where g: "getConnectionObject id' mode None (Rejected (Error [])) s = (r, s1)"
    by (cases "getConnectionObject id' mode None (Rejected (Error [])) s")
  with invariant_getConnectionObject [OF assms, of id' mode None "Rejected (Error [])"]
  have inv1: "invariant s1" by simp
  have upd: "invariant (update_pc c (\<lambda>p. p\<lparr>remoteDescription := d\<rparr>) s1)" for c d
    by (rule invariant_update_pc [OF inv1]) simp_all
  show ?thesis
    using g inv1 upd
    by (simp add: handleAnswer_def Let_def invariant_quiet_intros
        split: sum.splits outcome.splits)
qed

lemma invariant_handleIceCandidate:
  assumes "invariant s"
  shows "invariant (handleIceCandidate id' mode cand setup mic added s)"
proof -
  obtain r s1 where g: "getConnectionObject id' mode setup mic s = (r, s1)"
    by (cases "getConnectionObject id' mode setup mic s")
  with invariant_getConnectionObject [OF assms, of id' mode "setup" mic]
  have inv1: "invariant s1" by simp
  have upd: "invariant (update_pc c (\<lambda>p. p\<lparr>addedIceCandidates := addedIceCandidates p @ [cand]\<rparr>) s1)" for c
    by (rule invariant_update_pc [OF inv1]) simp_all
  show ?thesis
    using g inv1 upd
    by (simp add: handleIceCandidate_def Let_def invariant_quiet_intros
        split: sum.splits outcome.splits)
qed

lemma invariant_initial: "invariant initial"
  by (simp add: invariant_def initial_def new_OmegaRTC_def data_keys_agree_def
      voice_keys_agree_def live_registered_def keys_m_def)

lemma invariant_step: "invariant s \<Longrightarrow> invariant (step a s)"
proof (cases a)
qed (simp_all add: invariant_createOffer invariant_createAnswer invariant_handleAnswer
    invariant_handleIceCandidate invariant_getConnectionObject invariant_getDataConnection
    invariant_getVoiceConnection invariant_setupVoiceConnection invariant_closeDataConnection
    invariant_closeVoiceConnection invariant_dispatch_icecandidate
    invariant_dispatch_connectionstatechange invariant_dispatch_close
    quiet_invariant [OF quiet_on] quiet_invariant [OF quiet_relayOnly]
    quiet_invariant [OF quiet_fire] quiet_invariant [OF quiet_handleDataChannel]
    quiet_invariant [OF quiet_supportsTrickeIce] quiet_invariant [OF quiet_closeChannel]
    quiet_invariant [OF quiet_sendData] quiet_invariant [OF quiet_createDataChannel]
    quiet_invariant [OF quiet_dispatch_datachannel] quiet_invariant [OF quiet_dispatch_track]
    quiet_invariant [OF quiet_dispatch_message] quiet_invariant [OF quiet_dispatch_open])


lemma reachable_invariant: "reachable s \<Longrightarrow> invariant s"
  by (induction rule: reachable.induct) (simp_all add: invariant_initial invariant_step)

lemma reachable_run: "reachable s \<Longrightarrow> reachable (run as s)"
  unfolding run_def by (induction as arbitrary: s) (simp_all add: reachable_step)

subsection \<open>Every step and the done flags\<close>

lemma ice_view_same: "webrtc s' = webrtc s \<Longrightarrow> ice_view s' = ice_view s"
  by (simp add: ice_view_def)

lemma ice_view_quiet: "quiet s s' \<Longrightarrow> ice_view s' = ice_view s"
  by (simp add: ice_view_def quiet_def)

lemma ice_view_frames [simp]:
  "ice_view (console_log m s) = ice_view s"
  "ice_view (console_error m s) = ice_view s"
  "ice_view (fire e args s) = ice_view s"
  "ice_view (update_pc c f s) = ice_view s"
  "ice_view (update_chan c g s) = ice_view s"
  by (simp_all add: ice_view_def)

lemma ice_view_closeDataConnection:
  "ice_view (closeDataConnection id' s) =
     (delete_m id' (dataConnections (webrtc s)), delete_m id' (dataIceDone (webrtc s)))"
  by (simp add: ice_view_def closeDataConnection_webrtc)

lemma ice_view_closeVoiceConnection [simp]:
  "ice_view (closeVoiceConnection id' s) = ice_view s"
  by (simp add: ice_view_def closeVoiceConnection_webrtc)

lemma ice_view_addTracks [simp]: "ice_view (snd (addTracks c ts s)) = ice_view s"
  by (rule ice_view_quiet) simp

lemma ice_view_setupVoiceConnection [simp]:
  "ice_view (setupVoiceConnection id' mic s) = ice_view s"
proof -
  have "ice_view s1 = ice_view s" if "addTracks c ts s = (r, s1)" for c ts r s1
    using ice_view_addTracks [of c ts s] that by simp
  then show ?thesis
    by (auto simp: setupVoiceConnection_def Let_def
        split: outcome.splits option.splits prod.splits sum.splits)
qed

lemma ice_view_voice_created [simp]: "ice_view (voice_created id' s) = ice_view s"
  by (simp add: ice_view_def voice_created_def)

lemma ice_view_getVoiceConnection [simp]:
  "ice_view (snd (getVoiceConnection id' setup mic s)) = ice_view s"
  by (cases "get_m (voiceConnections (webrtc s)) id'")
     (simp_all add: getVoiceConnection_fresh getVoiceConnection_existing)

lemma ice_view_voice_onicecandidate [simp]:
  "ice_view (snd (voice_onicecandidate id' conn cand s)) = ice_view s"
  by (auto simp: voice_onicecandidate_def Let_def ice_view_def split: option.splits sum.splits)

lemma ice_view_voice_onconnectionstatechange [simp]:
  "ice_view (voice_onconnectionstatechange id' conn s) = ice_view s"
  by (simp add: voice_onconnectionstatechange_def split: RTCPeerConnectionState.splits)

lemma ice_plain_same: "ice_view s' = ice_view s \<Longrightarrow> ice_plain s s'"
  by (simp add: ice_plain_def)

lemma ice_plain_quiet: "quiet s s' \<Longrightarrow> ice_plain s s'"
  by (simp add: ice_plain_def ice_view_quiet)

lemma ice_plain_cong: "ice_view s'' = ice_view s' \<Longrightarrow> ice_plain s s' \<Longrightarrow> ice_plain s s''"
  by (simp add: ice_plain_def)

lemma ice_plain_closeDataConnection: "ice_plain s (closeDataConnection id' s)"
  unfolding ice_plain_def ice_view_closeDataConnection by blast

lemma ice_plain_getDataConnection: "ice_plain s (snd (getDataConnection id' s))"
proof (cases "get_m (dataConnections (webrtc s)) id'")
  case (Some conn)
  then show ?thesis
    by (simp add: getDataConnection_existing ice_plain_def)
next
  case None
  have "ice_view (snd (getDataConnection id' s)) =
          (set_m id' (length (pcs s)) (dataConnections (webrtc s)),
           set_m id' False (dataIceDone (webrtc s)))"
    by (simp add: ice_view_def getDataConnection_fresh [OF None])
  with None show ?thesis
    unfolding ice_plain_def by blast
qed

lemma ice_plain_getConnectionObject:
  "ice_plain s (snd (getConnectionObject id' mode setup mic s))"
  by (simp add: getConnectionObject_def ice_plain_getDataConnection ice_plain_same
      split: option.splits)

lemma ice_plain_createOffer:
  "ice_plain s (snd (createOffer id' name mode setup mic created applied s))"
proof -
  obtain r s1 where g: "getConnectionObject id' mode setup mic s = (r, s1)"
    by (cases "getConnectionObject id' mode setup mic s")
  with ice_plain_getConnectionObject [of s id' mode "setup" mic] have p: "ice_plain s s1"
    by simp
  have "ice_view (snd (createOffer id' name mode setup mic created applied s)) = ice_view s1"
    using g by (simp add: createOffer_def Let_def split: sum.splits outcome.splits)
  then show ?thesis
    using p by (rule ice_plain_cong)
qed

lemma ice_plain_createAnswer:
  "ice_plain s (snd (createAnswer id' name mode offer setup mic remote created applied s))"
proof -
  obtain r s1 where g: "getConnectionObject id' mode setup mic s = (r, s1)"
    by (cases "getConnectionObject id' mode setup mic s")
  with ice_plain_getConnectionObject [of s id' mode "setup" mic] have p: "ice_plain s s1"
    by simp
  have "ice_view (snd (createAnswer id' name mode offer setup mic remote created applied s))
          = ice_view s1"
    using g by (simp add: createAnswer_def Let_def split: sum.splits outcome.splits)
  then show ?thesis
    using p by (rule ice_plain_cong)
qed

lemma ice_plain_handleAnswer: "ice_plain s (handleAnswer id' mode answer remote s)"
proof -
  obtain r s1 where g: "getConnectionObject id' mode None (Rejected (Error [])) s = (r, s1)"
    by (cases "getConnectionObject id' mode None (Rejected (Error [])) s")
  with ice_plain_getConnectionObject [of s id' mode None "Rejected (Error [])"]
  have p: "ice_plain s s1"
    by simp
  have "ice_view (handleAnswer id' mode answer remote s) = ice_view s1"
    using g by (simp add: handleAnswer_def Let_def split: sum.splits outcome.splits)
  then show ?thesis
    using p by (rule ice_plain_cong)
qed

lemma ice_plain_handleIceCandidate:
  "ice_plain s (handleIceCandidate id' mode cand setup mic added s)"
proof -
  obtain r s1 where g: "getConnectionObject id' mode setup mic s = (r, s1)"
    by (cases "getConnectionObject id' mode setup mic s")
  with ice_plain_getConnectionObject [of s id' mode "setup" mic] have p: "ice_plain s s1"
    by simp
  have "ice_view (handleIceCandidate id' mode cand setup mic added s) = ice_view s1"
    using g by (simp add: handleIceCandidate_def Let_def split: sum.splits outcome.splits)
  then show ?thesis
    using p by (rule ice_plain_cong)
qed

lemma ice_plain_closed_after:
  "ice_view s1 = ice_view s \<Longrightarrow> ice_plain s (closeDataConnection id' s1)"
  unfolding ice_plain_def ice_view_closeDataConnection by (auto simp: ice_view_def)

lemma ice_plain_chan_onclose: "ice_plain s (chan_onclose id' l s)"
  by (simp add: chan_onclose_def Let_def ice_plain_same
      ice_plain_cong [OF _ ice_plain_closed_after])

lemma ice_plain_dispatch_close: "ice_plain s (dispatch_close chan s)"
proof -
  have "ice_plain s (chan_onclose i l (update_chan chan f s))" for i l f
    by (simp add: chan_onclose_def Let_def ice_plain_same
        ice_plain_cong [OF _ ice_plain_closed_after])
  then show ?thesis
    by (simp add: dispatch_close_def Let_def ice_plain_same split: ch_closure.splits)
qed

lemma ice_plain_dispatch_connectionstatechange:
  "ice_plain s (dispatch_connectionstatechange conn st s)"
  by (simp add: dispatch_connectionstatechange_def Let_def ice_plain_same
      data_onconnectionstatechange_def ice_plain_cong [OF _ ice_plain_closed_after]
      split: pc_closure.splits RTCPeerConnectionState.splits)

lemma ice_view_data_onicecandidate:
  "ice_view (snd (data_onicecandidate id' conn cand s)) = ice_view s \<or>
   iceGatheringState (pcs s ! conn) = ICE_complete \<and>
   ice_view (snd (data_onicecandidate id' conn cand s)) =
     (dataConnections (webrtc s), set_m id' True (dataIceDone (webrtc s)))"
  by (auto simp: data_onicecandidate_def Let_def ice_view_def
      split: option.splits sum.splits RTCIceGatheringState.splits)

lemma ice_dispatch_icecandidate:
  "ice_view (snd (dispatch_icecandidate conn cand g s)) = ice_view s \<or>
   (\<exists>id'. g = ICE_complete \<and> conn < length (pcs s) \<and> \<not> pc_isClosed (pcs s ! conn) \<and>
      onicecandidate (pcs s ! conn) = DataClosure id' \<and>
      ice_view (snd (dispatch_icecandidate conn cand g s)) =
        (dataConnections (webrtc s), set_m id' True (dataIceDone (webrtc s))))"
proof (cases "conn < length (pcs s) \<and> \<not> pc_isClosed (pcs s ! conn)")
  case False
  then show ?thesis
    by (auto simp: dispatch_icecandidate_def)
next
  case True
  let ?s1 = "update_pc conn (\<lambda>p. p\<lparr>iceGatheringState := g\<rparr>) s"
  show ?thesis
  proof (cases "onicecandidate (pcs s ! conn)")
    case NoHandler
    with True show ?thesis
      by (simp add: dispatch_icecandidate_def Let_def)
  next
    case (VoiceClosure i)
    with True show ?thesis
      by (simp add: dispatch_icecandidate_def Let_def)
  next
    case (DataClosure i)
    with True have d: "dispatch_icecandidate conn cand g s = data_onicecandidate i conn cand ?s1"
      by (simp add: dispatch_icecandidate_def Let_def)
    from True have g: "iceGatheringState (pcs ?s1 ! conn) = g"
      by simp
    from ice_view_data_onicecandidate [of i conn cand ?s1] True DataClosure show ?thesis
      unfolding d g by (auto simp: ice_view_def)
  qed
qed

lemma step_ice_effect:
  "ice_plain s (step a s) \<or>
   (\<exists>id'. ice_completed a id' s \<and>
      ice_view (step a s) = (dataConnections (webrtc s), set_m id' True (dataIceDone (webrtc s))))"
proof (cases a)
  case (Event_icecandidate conn cand g)
  with ice_dispatch_icecandidate [of conn cand g s] show ?thesis
    by (auto simp: ice_plain_def ice_completed_def)
qed (simp_all add: ice_plain_createOffer ice_plain_createAnswer ice_plain_handleAnswer
    ice_plain_handleIceCandidate ice_plain_getConnectionObject ice_plain_getDataConnection
    ice_plain_closeDataConnection ice_plain_dispatch_close
    ice_plain_dispatch_connectionstatechange ice_plain_same ice_plain_quiet)

lemma doneGatheringIce_True:
  "doneGatheringIce s id' = Some True \<longleftrightarrow>
     has_m (fst (ice_view s)) id' \<and> get_m (snd (ice_view s)) id' = Some True"
  by (simp add: doneGatheringIce_def ice_view_def)

subsection \<open>Creating a voice connection and the microphone\<close>

lemma addTracks_open:
  "c < length (pcs s) \<Longrightarrow> \<not> pc_isClosed (pcs s ! c) \<Longrightarrow>
   fst (addTracks c ts s) = Inr () \<and> webrtc (snd (addTracks c ts s)) = webrtc s"
proof (induction ts arbitrary: s)
  case Nil
  show ?case by simp
next
  case (Cons t ts)
  let ?s1 = "update_pc c (\<lambda>p. p\<lparr>senders := senders p @ [t]\<rparr>) s"
  from Cons.prems have "c < length (pcs ?s1)" "\<not> pc_isClosed (pcs ?s1 ! c)"
    by simp_all
  from Cons.IH [OF this] Cons.prems show ?case
    by (simp add: pc_addTrack_def)
qed

lemma getVoiceConnection_registered:
  assumes "\<not> setup \<or> (\<exists>stream. mic = Resolved stream)"
  shows "get_m (voiceConnections (webrtc (snd (getVoiceConnection id' setup mic s)))) id' =
           Some (case fst (getVoiceConnection id' setup mic s) of Inr conn \<Rightarrow> conn | Inl e \<Rightarrow> 0)"
proof (cases "get_m (voiceConnections (webrtc s)) id'")
  case (Some conn)
  then show ?thesis
    by (simp add: getVoiceConnection_existing)
next
  case None
  let ?v = "voice_created id' s"
  have reg: "get_m (voiceConnections (webrtc ?v)) id' = Some (length (pcs s))"
    by (simp add: voice_created_def get_m_set_m)
  have "length (pcs s) < length (pcs ?v)" "\<not> pc_isClosed (pcs ?v ! length (pcs s))"
    by (simp_all add: voice_created_def)
  from addTracks_open [OF this]
  have ok: "fst (addTracks (length (pcs s)) ts ?v) = Inr () \<and>
            webrtc (snd (addTracks (length (pcs s)) ts ?v)) = webrtc ?v" for ts .
  have "webrtc (setupVoiceConnection id' (Resolved stream) ?v) = webrtc ?v" for stream
    using ok [of "stream_tracks stream"] reg
    by (cases "addTracks (length (pcs s)) (stream_tracks stream) ?v")
       (auto simp: setupVoiceConnection_def Let_def split: sum.splits)
  with assms None reg show ?thesis
    by (auto simp: getVoiceConnection_fresh)
qed

lemma getVoiceConnection_denied:
  assumes "get_m (voiceConnections (webrtc s)) id' = None"
  shows "fst (getVoiceConnection id' True (Rejected e) s) = Inr (length (pcs s)) \<and>
         get_m (voiceConnections (webrtc (snd (getVoiceConnection id' True (Rejected e) s)))) id'
           = None \<and>
         length (pcs (snd (getVoiceConnection id' True (Rejected e) s))) = Suc (length (pcs s))"
  using assms
  by (simp add: getVoiceConnection_fresh setupVoiceConnection_def closeVoiceConnection_webrtc
      closeVoiceConnection_pcs get_m_delete_m voice_created_def get_m_set_m)

section \<open>The properties\<close>

text \<open>
  C10. \<^verbatim>\<open>allIceCandidates(id, mode)\<close> returns the empty list when the mode is neither 0
  nor 1, when the connection of that mode is absent, and when the done flag of the id is
  not true, whatever candidates have been accumulated; when the connection is there and
  the flag is true it returns the accumulated list of candidates.
\<close>

theorem allIceCandidates_gated:
  "(mode \<noteq> 0 \<and> mode \<noteq> 1 \<longrightarrow> allIceCandidates s id' mode = Some []) \<and>
   (mode = 0 \<and> \<not> has_m (dataConnections (webrtc s)) id' \<longrightarrow>
      allIceCandidates s id' mode = Some []) \<and>
   (mode = 1 \<and> \<not> has_m (voiceConnections (webrtc s)) id' \<longrightarrow>
      allIceCandidates s id' mode = Some []) \<and>
   (mode = 0 \<and> get_m (dataIceDone (webrtc s)) id' \<noteq> Some True \<longrightarrow>
      allIceCandidates s id' mode = Some []) \<and>
   (mode = 1 \<and> get_m (voiceIceDone (webrtc s)) id' \<noteq> Some True \<longrightarrow>
      allIceCandidates s id' mode = Some []) \<and>
   (mode = 0 \<and> has_m (dataConnections (webrtc s)) id' \<and>
    get_m (dataIceDone (webrtc s)) id' = Some True \<longrightarrow>
      allIceCandidates s id' mode = get_m (dataIceCandidates (webrtc s)) id') \<and>
   (mode = 1 \<and> has_m (voiceConnections (webrtc s)) id' \<and>
    get_m (voiceIceDone (webrtc s)) id' = Some True \<longrightarrow>
      allIceCandidates s id' mode = get_m (voiceIceCandidates (webrtc s)) id')"
  by (simp add: allIceCandidates_def)

theorem allIceCandidates_gated_witness:
  "allIceCandidates bob_gathered ''bob'' 7 = Some [] \<and>
   allIceCandidates initial ''bob'' 0 = Some [] \<and>
   allIceCandidates initial ''bob'' 1 = Some [] \<and>
   get_m (dataIceCandidates (webrtc bob_gathering)) ''bob'' = Some [host_candidate] \<and>
   allIceCandidates bob_gathering ''bob'' 0 = Some [] \<and>
   allIceCandidates bob_gathered ''bob'' 0 = Some [host_candidate]"
proof -
  have absent: "\<not> has_m (dataConnections (webrtc initial)) ''bob''"
    "\<not> has_m (voiceConnections (webrtc initial)) ''bob''"
    by code_simp+
  have gathering: "get_m (dataIceDone (webrtc bob_gathering)) ''bob'' \<noteq> Some True"
    "get_m (dataIceCandidates (webrtc bob_gathering)) ''bob'' = Some [host_candidate]"
    by code_simp+
  have gathered: "has_m (dataConnections (webrtc bob_gathered)) ''bob''"
    "get_m (dataIceDone (webrtc bob_gathered)) ''bob'' = Some True"
    "get_m (dataIceCandidates (webrtc bob_gathered)) ''bob'' = Some [host_candidate]"
    by code_simp+
  show ?thesis
    using allIceCandidates_gated [of 7 bob_gathered "''bob''"]
      allIceCandidates_gated [of 0 initial "''bob''"]
      allIceCandidates_gated [of 1 initial "''bob''"]
      allIceCandidates_gated [of 0 bob_gathering "''bob''"]
      allIceCandidates_gated [of 0 bob_gathered "''bob''"]
      absent gathering gathered
    by simp
qed

text \<open>
  C8. When the peer has no channel map, or the label is not a channel of the peer,
  \<^verbatim>\<open>sendData\<close> returns \<^verbatim>\<open>undefined\<close>, throws nothing and leaves the whole state as it
  was: nothing is sent.
\<close>

theorem sendData_unknown_pair:
  assumes "\<not> has_m (dataChannels (webrtc s)) id' \<or>
           (\<exists>m. get_m (dataChannels (webrtc s)) id' = Some m \<and> \<not> has_m m label)"
  shows "sendData id' label data wait s = (Inr False, s)"
  using assms by (auto simp: sendData_def has_m_get_m split: option.splits)

theorem sendData_unknown_pair_witness:
  "sendData ''bob'' ''default'' ''hello'' True initial = (Inr False, initial) \<and>
   sendData ''bob'' ''audio'' ''hello'' False bob_created = (Inr False, bob_created)"
proof -
  have unknown_peer: "\<not> has_m (dataChannels (webrtc initial)) ''bob''"
    by code_simp
  have "get_m (dataChannels (webrtc bob_created)) ''bob'' = Some [(''default'', 0)]"
    "\<not> has_m [(''default'', 0::nat)] ''audio''"
    by code_simp+
  then have unknown_label:
    "\<exists>m. get_m (dataChannels (webrtc bob_created)) ''bob'' = Some m \<and> \<not> has_m m ''audio''"
    by blast
  show ?thesis
    using sendData_unknown_pair [of initial "''bob''" "''default''" "''hello''" True]
      sendData_unknown_pair [of bob_created "''bob''" "''audio''" "''hello''" False]
      unknown_peer unknown_label
    by blast
qed



text \<open>
  C1. On the page where the peer \<^verbatim>\<open>bob\<close> exists, \<^verbatim>\<open>createDataChannel\<close> returns a new
  channel labelled \<^verbatim>\<open>audio\<close>, and \<^verbatim>\<open>doesPeerChannelExist\<close> still answers false for
  that label: the channel is handed to the caller and never stored in the channel map.
\<close>

theorem createDataChannel_not_listed:
  "has_m (dataConnections (webrtc bob_created)) ''bob'' \<and>
   fst (createDataChannel ''bob'' ''audio'' False bob_created) = Inr (Some 1) \<and>
   doesPeerChannelExist (snd (createDataChannel ''bob'' ''audio'' False bob_created))
     ''bob'' ''audio'' = False"
  by code_simp

text \<open>
  C6. Right after \<^verbatim>\<open>getDataConnection\<close> has created the connection of an id,
  \<^verbatim>\<open>doneGatheringIce\<close> is false. A call or an event that makes it true is the event by
  which the engine reports the gathering complete to an open connection created for that
  id. No call or event after which the id still has the same connection makes it go back
  from true.
\<close>

theorem ice_done_monotone:
  "(\<not> has_m (dataConnections (webrtc s)) id' \<longrightarrow>
      doneGatheringIce (snd (getDataConnection id' s)) id' = Some False) \<and>
   (doneGatheringIce s id' \<noteq> Some True \<and> doneGatheringIce (step a s) id' = Some True \<longrightarrow>
      (\<exists>conn cand. a = Event_icecandidate conn cand ICE_complete \<and> conn < length (pcs s) \<and>
         \<not> pc_isClosed (pcs s ! conn) \<and> onicecandidate (pcs s ! conn) = DataClosure id')) \<and>
   (doneGatheringIce s id' = Some True \<and>
    get_m (dataConnections (webrtc s)) id' = Some conn \<and>
    get_m (dataConnections (webrtc (step a s))) id' = Some conn \<longrightarrow>
      doneGatheringIce (step a s) id' = Some True)"
proof (intro conjI impI)
  assume "\<not> has_m (dataConnections (webrtc s)) id'"
  then have "get_m (dataConnections (webrtc s)) id' = None"
    by (simp add: has_m_get_m)
  from getDataConnection_fresh(2) [OF this]
  show "doneGatheringIce (snd (getDataConnection id' s)) id' = Some False"
    by (simp add: doneGatheringIce_def has_m_set_m get_m_set_m)
next
  assume a: "doneGatheringIce s id' \<noteq> Some True \<and> doneGatheringIce (step a s) id' = Some True"
  from step_ice_effect [of s a] a have "ice_completed a id' s"
    unfolding ice_plain_def doneGatheringIce_True
    by (auto simp: ice_view_def has_m_set_m get_m_set_m has_m_delete_m get_m_delete_m
        split: if_splits)
  then show "\<exists>conn cand. a = Event_icecandidate conn cand ICE_complete \<and> conn < length (pcs s) \<and>
         \<not> pc_isClosed (pcs s ! conn) \<and> onicecandidate (pcs s ! conn) = DataClosure id'"
    by (simp add: ice_completed_def)
next
  assume a: "doneGatheringIce s id' = Some True \<and>
    get_m (dataConnections (webrtc s)) id' = Some conn \<and>
    get_m (dataConnections (webrtc (step a s))) id' = Some conn"
  then have h: "has_m (dataConnections (webrtc (step a s))) id'"
    by (simp add: get_m_Some_has_m)
  from step_ice_effect [of s a] a h show "doneGatheringIce (step a s) id' = Some True"
    unfolding ice_plain_def doneGatheringIce_True
    by (auto simp: ice_view_def has_m_set_m get_m_set_m has_m_delete_m get_m_delete_m
        split: if_splits)
qed

theorem ice_done_monotone_witness:
  "\<not> has_m (dataConnections (webrtc initial)) ''bob'' \<and>
   doneGatheringIce bob_created ''bob'' = Some False \<and>
   doneGatheringIce bob_gathering ''bob'' = Some False \<and>
   doneGatheringIce (step (Event_icecandidate 0 None ICE_complete) bob_gathering) ''bob''
     = Some True \<and>
   onicecandidate (pcs bob_gathering ! 0) = DataClosure ''bob'' \<and>
   doneGatheringIce bob_gathered ''bob'' = Some True \<and>
   doneGatheringIce (step (Event_icecandidate 0 (Some host_candidate) ICE_gathering) bob_gathered)
     ''bob'' = Some True"
proof -
  have absent: "\<not> has_m (dataConnections (webrtc initial)) ''bob''"
    by code_simp
  have created: "snd (getDataConnection ''bob'' initial) = bob_created"
    by (simp add: bob_created_def run_def)
  have before: "doneGatheringIce bob_gathering ''bob'' = Some False"
    by code_simp
  have after: "doneGatheringIce (step (Event_icecandidate 0 None ICE_complete) bob_gathering)
                 ''bob'' = Some True"
    by code_simp
  have finished: "doneGatheringIce bob_gathered ''bob'' = Some True"
    "get_m (dataConnections (webrtc bob_gathered)) ''bob'' = Some 0"
    "get_m (dataConnections (webrtc
        (step (Event_icecandidate 0 (Some host_candidate) ICE_gathering) bob_gathered))) ''bob''
       = Some 0"
    by code_simp+
  from ice_done_monotone [of initial "''bob''" "Call_relayOnly False" 0] absent created
  have 1: "doneGatheringIce bob_created ''bob'' = Some False"
    by simp
  from ice_done_monotone [of bob_gathering "''bob''" "Event_icecandidate 0 None ICE_complete" 0]
    before after
  have 2: "onicecandidate (pcs bob_gathering ! 0) = DataClosure ''bob''"
    by simp
  from ice_done_monotone [of bob_gathered "''bob''"
      "Event_icecandidate 0 (Some host_candidate) ICE_gathering" 0] finished
  have 3: "doneGatheringIce
             (step (Event_icecandidate 0 (Some host_candidate) ICE_gathering) bob_gathered)
             ''bob'' = Some True"
    by simp
  from absent 1 before after 2 finished(1) 3 show ?thesis
    by simp
qed




text \<open>
  C2, as the code has it. In every state, \<^verbatim>\<open>getDataConnection\<close> called twice with the
  same id returns the same connection, and the second call changes nothing. The same
  holds for \<^verbatim>\<open>getVoiceConnection\<close> when the first call does not ask for the microphone or
  the microphone is granted. In every state that the page can reach, two open connections
  whose candidate handlers captured the same mode and id are one connection.
\<close>

theorem get_or_create_once:
  assumes "reachable s"
  shows "(\<exists>conn s1. getDataConnection id' s = (Inr conn, s1) \<and>
            getDataConnection id' s1 = (Inr conn, s1)) \<and>
         (\<not> setup \<or> (\<exists>stream. mic = Resolved stream) \<longrightarrow>
            (\<exists>conn s1. getVoiceConnection id' setup mic s = (Inr conn, s1) \<and>
               getVoiceConnection id' setup' mic' s1 = (Inr conn, s1))) \<and>
         (\<forall>c1 c2. c1 < length (pcs s) \<and> c2 < length (pcs s) \<and>
            \<not> pc_isClosed (pcs s ! c1) \<and> \<not> pc_isClosed (pcs s ! c2) \<and>
            onicecandidate (pcs s ! c1) \<noteq> NoHandler \<and>
            onicecandidate (pcs s ! c1) = onicecandidate (pcs s ! c2) \<longrightarrow> c1 = c2)"
proof (intro conjI impI allI)
  show "\<exists>conn s1. getDataConnection id' s = (Inr conn, s1) \<and>
            getDataConnection id' s1 = (Inr conn, s1)"
  proof (cases "get_m (dataConnections (webrtc s)) id'")
    case (Some conn)
    then show ?thesis
      by (simp add: getDataConnection_existing)
  next
    case None
    note fresh = getDataConnection_fresh [OF None]
    have "get_m (dataConnections (webrtc (snd (getDataConnection id' s)))) id' =
            Some (length (pcs s))"
      by (simp add: fresh get_m_set_m)
    from getDataConnection_existing [OF this] fresh(1) show ?thesis
      by (cases "getDataConnection id' s") auto
  qed
next
  assume a: "\<not> setup \<or> (\<exists>stream. mic = Resolved stream)"
  obtain r s1 where g: "getVoiceConnection id' setup mic s = (r, s1)"
    by (cases "getVoiceConnection id' setup mic s")
  have "\<exists>conn. r = Inr conn"
    using g by (cases "get_m (voiceConnections (webrtc s)) id'")
      (auto simp: getVoiceConnection_fresh getVoiceConnection_existing)
  then obtain conn where r: "r = Inr conn" ..
  from getVoiceConnection_registered [OF a, of id' s] g r
  have "get_m (voiceConnections (webrtc s1)) id' = Some conn"
    by simp
  from getVoiceConnection_existing [OF this] g r
  show "\<exists>conn s1. getVoiceConnection id' setup mic s = (Inr conn, s1) \<and>
               getVoiceConnection id' setup' mic' s1 = (Inr conn, s1)"
    by simp
next
  fix c1 c2
  assume a: "c1 < length (pcs s) \<and> c2 < length (pcs s) \<and>
            \<not> pc_isClosed (pcs s ! c1) \<and> \<not> pc_isClosed (pcs s ! c2) \<and>
            onicecandidate (pcs s ! c1) \<noteq> NoHandler \<and>
            onicecandidate (pcs s ! c1) = onicecandidate (pcs s ! c2)"
  from reachable_invariant [OF assms] have "live_registered s"
    by (simp add: invariant_def)
  with a have "registered_as s c1 (onicecandidate (pcs s ! c1))"
    "registered_as s c2 (onicecandidate (pcs s ! c1))"
    by (auto simp: live_registered_def)
  with a show "c1 = c2"
    by (auto simp: registered_as_def split: pc_closure.splits)
qed

theorem get_or_create_once_witness:
  "reachable bob_created \<and>
   (\<exists>conn s1. getDataConnection ''bob'' bob_created = (Inr conn, s1) \<and>
      getDataConnection ''bob'' s1 = (Inr conn, s1)) \<and>
   (\<exists>conn s1. getVoiceConnection ''bob'' False (Resolved \<lparr>stream_id = 0, stream_tracks = [0]\<rparr>)
        bob_created = (Inr conn, s1) \<and>
      getVoiceConnection ''bob'' False (Resolved \<lparr>stream_id = 0, stream_tracks = [0]\<rparr>) s1
        = (Inr conn, s1)) \<and>
   (\<exists>conn s1. getVoiceConnection ''bob'' True (Resolved \<lparr>stream_id = 0, stream_tracks = [0]\<rparr>)
        bob_created = (Inr conn, s1) \<and>
      getVoiceConnection ''bob'' True (Resolved \<lparr>stream_id = 0, stream_tracks = [0]\<rparr>) s1
        = (Inr conn, s1)) \<and>
   0 < length (pcs bob_created) \<and> \<not> pc_isClosed (pcs bob_created ! 0) \<and>
   onicecandidate (pcs bob_created ! 0) \<noteq> NoHandler"
proof -
  have r: "reachable bob_created"
    unfolding bob_created_def by (rule reachable_run [OF reachable_initial])
  have live: "0 < length (pcs bob_created)" "\<not> pc_isClosed (pcs bob_created ! 0)"
    "onicecandidate (pcs bob_created ! 0) \<noteq> NoHandler"
    by code_simp+
  from get_or_create_once [OF r, of "''bob''" False
      "Resolved \<lparr>stream_id = 0, stream_tracks = [0]\<rparr>" False
      "Resolved \<lparr>stream_id = 0, stream_tracks = [0]\<rparr>"]
    get_or_create_once [OF r, of "''bob''" True
      "Resolved \<lparr>stream_id = 0, stream_tracks = [0]\<rparr>" True
      "Resolved \<lparr>stream_id = 0, stream_tracks = [0]\<rparr>"]
    r live
  show ?thesis
    by simp
qed

text \<open>
  C2 as stated fails when the microphone is refused: the first call of
  \<^verbatim>\<open>getVoiceConnection\<close> returns a connection that \<^verbatim>\<open>setupVoiceConnection\<close> has already
  closed and removed from the registry, and the second call creates another one.
\<close>

theorem getVoiceConnection_twice_counterexample:
  "fst (getVoiceConnection ''bob'' True (Rejected (DOMException ''NotAllowedError'')) initial)
     = Inr 0 \<and>
   fst (getVoiceConnection ''bob'' True (Rejected (DOMException ''NotAllowedError''))
          (snd (getVoiceConnection ''bob'' True (Rejected (DOMException ''NotAllowedError''))
                  initial)))
     = Inr 1"
proof -
  have "get_m (voiceConnections (webrtc initial)) ''bob'' = None" "length (pcs initial) = 0"
    by (simp_all add: initial_def new_OmegaRTC_def get_m_def)
  with getVoiceConnection_denied [of initial "''bob''" "DOMException ''NotAllowedError''"]
    getVoiceConnection_denied [of "snd (getVoiceConnection ''bob'' True
        (Rejected (DOMException ''NotAllowedError'')) initial)" "''bob''"
        "DOMException ''NotAllowedError''"]
  show ?thesis
    by simp
qed




end
